theory Spec2Isabelle
  imports Main "HOL-Library.Char_ord" "HOL-Library.List_Lexorder" "HOL-Library.Sublist"
begin

chapter \<open>A CRM sales agent: shallow embedding of the turn orchestration\<close>

text \<open>
  The development embeds the Python modules \<^verbatim>\<open>app/agent/helpers.py\<close>,
  \<^verbatim>\<open>app/agent/tools.py\<close> and \<^verbatim>\<open>app/agent/workflow.py\<close>. The first part holds the
  definitions, in the order of the call graph; the second part holds the lemmas and the
  theorems about them.
\<close>

section \<open>Text: characters and the patterns of \<^verbatim>\<open>helpers.py\<close>\<close>

text \<open>
  A Python \<^verbatim>\<open>str\<close> is a sequence of code points. A \<^typ>\<open>char\<close> is read as a code point
  below 256 (Latin-1), so a \<^typ>\<open>string\<close> stands for a text over these code points.
  The classes below are the bracket expressions of the patterns, letter by letter;
  \<open>is_digit\<close> is \<^verbatim>\<open>\d\<close> and \<open>is_word\<close> is \<^verbatim>\<open>\w\<close>, which for a \<^verbatim>\<open>str\<close> pattern
  also holds the alphanumeric code points of Latin-1 above 127.
\<close>

definition is_digit :: "char \<Rightarrow> bool" where
  "is_digit c = (c \<in> set ''0123456789'')"

definition is_hex :: "char \<Rightarrow> bool" where
  "is_hex c = (c \<in> set ''0123456789abcdefABCDEF'')"

definition is_alpha :: "char \<Rightarrow> bool" where
  "is_alpha c = (c \<in> set ''ABCDEFGHIJKLMNOPQRSTUVWXYZabcdefghijklmnopqrstuvwxyz'')"

definition is_local :: "char \<Rightarrow> bool" where
  "is_local c = (is_alpha c \<or> is_digit c \<or> c \<in> set ''._%+-'')"

definition is_dom :: "char \<Rightarrow> bool" where
  "is_dom c = (is_alpha c \<or> is_digit c \<or> c \<in> set ''.-'')"

definition is_word :: "char \<Rightarrow> bool" where
  "is_word c =
     (is_alpha c \<or> is_digit c \<or> c = CHR ''_'' \<or>
      (let n = (of_char c :: nat) in
         n = 170 \<or> n = 178 \<or> n = 179 \<or> n = 181 \<or> n = 185 \<or> n = 186 \<or>
         (188 \<le> n \<and> n \<le> 190) \<or> (192 \<le> n \<and> n \<le> 214) \<or>
         (216 \<le> n \<and> n \<le> 246) \<or> 248 \<le> n))"

subsection \<open>The identifier pattern\<close>

text \<open>
  \<^verbatim>\<open>\b[0-9a-fA-F]{8}-[0-9a-fA-F]{4}-[0-9a-fA-F]{4}-[0-9a-fA-F]{4}-[0-9a-fA-F]{12}\b\<close>:
  a fixed sequence of 36 classes between two word boundaries. \<open>match_tmpl\<close> consumes
  the sequence at the head of the text and returns the rest. The assertion \<^verbatim>\<open>\b\<close>
  holds between two positions exactly when one side is a word character and the other is
  not, the outside of the text counting as not a word character; \<open>prev\<close> is the
  character before the position under trial.
\<close>

datatype cls = Hex | Dash

fun in_cls :: "cls \<Rightarrow> char \<Rightarrow> bool" where
  "in_cls Hex c = is_hex c"
| "in_cls Dash c = (c = CHR ''-'')"

definition uuid_template :: "cls list" where
  "uuid_template =
     replicate 8 Hex @ [Dash] @ replicate 4 Hex @ [Dash] @ replicate 4 Hex @ [Dash] @
     replicate 4 Hex @ [Dash] @ replicate 12 Hex"

fun match_tmpl :: "cls list \<Rightarrow> string \<Rightarrow> string option" where
  "match_tmpl [] cs = Some cs"
| "match_tmpl (k # ks) [] = None"
| "match_tmpl (k # ks) (c # cs) = (if in_cls k c then match_tmpl ks cs else None)"

definition opt_word :: "char option \<Rightarrow> bool" where
  "opt_word a = (case a of None \<Rightarrow> False | Some c \<Rightarrow> is_word c)"

definition word_boundary :: "char option \<Rightarrow> char option \<Rightarrow> bool" where
  "word_boundary a b = (opt_word a \<noteq> opt_word b)"

definition first_char :: "string \<Rightarrow> char option" where
  "first_char cs = (case cs of [] \<Rightarrow> None | c # _ \<Rightarrow> Some c)"

definition last_char :: "char option \<Rightarrow> string \<Rightarrow> char option" where
  "last_char prev m = (if m = [] then prev else Some (last m))"

definition uuid_match_at :: "char option \<Rightarrow> string \<Rightarrow> string option" where
  "uuid_match_at prev cs =
     (if \<not> word_boundary prev (first_char cs) then None
      else case match_tmpl uuid_template cs of
        None \<Rightarrow> None
      | Some r \<Rightarrow>
          (let m = take (length cs - length r) cs
           in if word_boundary (last_char prev m) (first_char r) then Some m else None))"

text \<open>\<^verbatim>\<open>re.search\<close> tries the start positions from left to right and returns the first match.\<close>

fun re_search_uuid :: "char option \<Rightarrow> string \<Rightarrow> string option" where
  "re_search_uuid prev [] = uuid_match_at prev []"
| "re_search_uuid prev (c # cs) =
     (case uuid_match_at prev (c # cs) of
        Some m \<Rightarrow> Some m
      | None \<Rightarrow> re_search_uuid (Some c) cs)"

subsection \<open>The e-mail pattern\<close>

text \<open>
  \<^verbatim>\<open>[A-Za-z0-9._%+-]+@[A-Za-z0-9.-]+\.[A-Za-z]{2,}\<close>. All three repetitions are greedy.
  The first one takes the longest run of local characters; a shorter run is followed by a
  local character, never by \<^verbatim>\<open>@\<close>, so backtracking into it cannot succeed. The second
  one takes the longest run of domain characters and gives characters back one by one
  (\<open>domain_tld\<close>, from the longest domain down to one character) until a dot and at
  least two letters follow (\<open>tld_at\<close>); the last repetition takes every letter there is.
\<close>

definition tld_at :: "string \<Rightarrow> nat option" where
  "tld_at cs =
     (case cs of
        [] \<Rightarrow> None
      | c # cs' \<Rightarrow>
          if c = CHR ''.'' \<and> 2 \<le> length (takeWhile is_alpha cs')
          then Some (Suc (length (takeWhile is_alpha cs')))
          else None)"

fun domain_tld :: "string \<Rightarrow> nat \<Rightarrow> nat option" where
  "domain_tld r 0 = None"
| "domain_tld r (Suc k) =
     (case tld_at (drop (Suc k) r) of
        Some t \<Rightarrow> Some (Suc k + t)
      | None \<Rightarrow> domain_tld r k)"

definition email_match_at :: "string \<Rightarrow> string option" where
  "email_match_at cs =
     (let l = takeWhile is_local cs; r = dropWhile is_local cs
      in if l = [] then None
         else case r of
           [] \<Rightarrow> None
         | a # r2 \<Rightarrow>
             if a \<noteq> CHR ''@'' then None
             else (case domain_tld r2 (length (takeWhile is_dom r2)) of
                     None \<Rightarrow> None
                   | Some n \<Rightarrow> Some (l @ a # take n r2)))"

fun re_search_email :: "string \<Rightarrow> string option" where
  "re_search_email [] = email_match_at []"
| "re_search_email (c # cs) =
     (case email_match_at (c # cs) of
        Some m \<Rightarrow> Some m
      | None \<Rightarrow> re_search_email cs)"

subsection \<open>\<^verbatim>\<open>extract_ref_from_text\<close>\<close>

text \<open>
  \<^verbatim>\<open>re.sub(r"\D+", "", text)\<close> deletes every maximal run of non-digits, which leaves the
  digits of the text in their order: \<open>filter is_digit\<close>.
\<close>

definition extract_ref_from_text :: "string \<Rightarrow> string option" where
  "extract_ref_from_text text =
     (if text = [] then None
      else case re_search_uuid None text of
        Some m \<Rightarrow> Some m
      | None \<Rightarrow>
          (case re_search_email text of
             Some m \<Rightarrow> Some m
           | None \<Rightarrow>
               (let digits = filter is_digit text
                in if 8 \<le> length digits then Some digits else None)))"

subsection \<open>The shapes the patterns describe\<close>

text \<open>
  Independently of the matching functions: a text has the identifier shape when it is 36
  characters long, hexadecimal digits in groups of 8, 4, 4, 4 and 12 with a dash between
  the groups; it has the e-mail shape when it is a local part, \<^verbatim>\<open>@\<close>, a domain, a dot
  and at least two letters. \<open>uuid_occurs\<close> says that the text holds an identifier
  that is not glued to a word character on either side.
\<close>

definition uuid_shaped :: "string \<Rightarrow> bool" where
  "uuid_shaped u = list_all2 in_cls uuid_template u"

definition email_shaped :: "string \<Rightarrow> bool" where
  "email_shaped e =
     (\<exists>l d t. e = l @ [CHR ''@''] @ d @ [CHR ''.''] @ t \<and>
        l \<noteq> [] \<and> list_all is_local l \<and> d \<noteq> [] \<and> list_all is_dom d \<and>
        2 \<le> length t \<and> list_all is_alpha t)"

definition uuid_occurs :: "string \<Rightarrow> bool" where
  "uuid_occurs text =
     (\<exists>ps u ss. text = ps @ u @ ss \<and> uuid_shaped u \<and>
        (ps = [] \<or> \<not> is_word (last ps)) \<and> (ss = [] \<or> \<not> is_word (hd ss)))"

definition email_occurs :: "string \<Rightarrow> bool" where
  "email_occurs text = (\<exists>e. email_shaped e \<and> sublist e text)"

section \<open>Data model\<close>

subsection \<open>Python values and dictionaries\<close>

text \<open>
  Slot values, parsed JSON and parsed tool echoes are Python values. Numbers are the
  integers; floating-point numbers are left out. A dictionary with string keys is an
  association list in insertion order with distinct keys: \<open>dict_set\<close> is the assignment
  \<^verbatim>\<open>d[k] = v\<close>, which keeps the place of a key that is already there and puts a new key at
  the end.
\<close>

datatype pyval =
    PNone
  | PBool bool
  | PInt int
  | PStr string
  | PList "pyval list"
  | PDict "(string \<times> pyval) list"

type_synonym pydict = "(string \<times> pyval) list"

fun truthy :: "pyval \<Rightarrow> bool" where
  "truthy PNone = False"
| "truthy (PBool b) = b"
| "truthy (PInt i) = (i \<noteq> 0)"
| "truthy (PStr s) = (s \<noteq> [])"
| "truthy (PList xs) = (xs \<noteq> [])"
| "truthy (PDict kvs) = (kvs \<noteq> [])"

text \<open>\<^verbatim>\<open>d.get(k)\<close>: the value, or \<^verbatim>\<open>None\<close> for a key that is not there.\<close>

definition dict_get :: "pydict \<Rightarrow> string \<Rightarrow> pyval" where
  "dict_get d k = (case map_of d k of None \<Rightarrow> PNone | Some v \<Rightarrow> v)"

fun dict_set :: "string \<Rightarrow> 'v \<Rightarrow> (string \<times> 'v) list \<Rightarrow> (string \<times> 'v) list" where
  "dict_set k v [] = [(k, v)]"
| "dict_set k v (p # d) = (if fst p = k then (k, v) # d else p # dict_set k v d)"

text \<open>\<^verbatim>\<open>d.update(e)\<close> assigns the items of \<open>e\<close> in their order.\<close>

definition dict_update :: "pydict \<Rightarrow> pydict \<Rightarrow> pydict" where
  "dict_update d e = fold (\<lambda>(k, v) acc. dict_set k v acc) e d"

text \<open>\<^verbatim>\<open>d.setdefault(k, v)\<close> assigns only when the key is not there.\<close>

definition dict_setdefault :: "string \<Rightarrow> pyval \<Rightarrow> pydict \<Rightarrow> pydict" where
  "dict_setdefault k v d = (if k \<in> fst ` set d then d else dict_set k v d)"

text \<open>
  A call of an external collaborator (language model, database, tool, library parser)
  either returns a value or raises an exception.
\<close>

datatype 'a outcome = Raised | Returned 'a

subsection \<open>Strings\<close>

text \<open>
  \<^verbatim>\<open>str.strip()\<close> removes the whitespace of Python at both ends (for code points below
  256: 9 to 13, 28 to 32, 133 and 160); \<^verbatim>\<open>str.lower()\<close> maps the capital letters of
  Latin-1 to the small ones.
\<close>

definition is_space :: "char \<Rightarrow> bool" where
  "is_space c =
     (let n = (of_char c :: nat)
      in (9 \<le> n \<and> n \<le> 13) \<or> (28 \<le> n \<and> n \<le> 32) \<or> n = 133 \<or> n = 160)"

definition strip :: "string \<Rightarrow> string" where
  "strip s = rev (dropWhile is_space (rev (dropWhile is_space s)))"

definition lower_char :: "char \<Rightarrow> char" where
  "lower_char c =
     (let n = (of_char c :: nat)
      in if (65 \<le> n \<and> n \<le> 90) \<or> (192 \<le> n \<and> n \<le> 222 \<and> n \<noteq> 215)
         then char_of (n + 32) else c)"

definition lower :: "string \<Rightarrow> string" where
  "lower s = map lower_char s"

definition startswith :: "string \<Rightarrow> string \<Rightarrow> bool" where
  "startswith s p = prefix p s"

definition endswith :: "string \<Rightarrow> string \<Rightarrow> bool" where
  "endswith s p = suffix p s"

text \<open>
  \<^verbatim>\<open>s.split("=", 1)\<close> for a string that holds \<^verbatim>\<open>=\<close>: the text before the first
  \<^verbatim>\<open>=\<close> and the text after it.
\<close>

definition split_eq :: "string \<Rightarrow> string \<times> string" where
  "split_eq s =
     (takeWhile (\<lambda>c. c \<noteq> CHR ''='') s, drop 1 (dropWhile (\<lambda>c. c \<noteq> CHR ''='') s))"

text \<open>\<^verbatim>\<open>sep.join(xs)\<close>.\<close>

fun join :: "string \<Rightarrow> string list \<Rightarrow> string" where
  "join sep [] = []"
| "join sep [x] = x"
| "join sep (x # y # ys) = x @ sep @ join sep (y # ys)"

definition newline :: char where
  "newline = CHR 0x0A"

subsection \<open>Leads, actions, response segments and the context\<close>

text \<open>
  A lead context is the dictionary \<^verbatim>\<open>{lead_id, nome, email, empresa}\<close>. The identifier
  is kept as its text (\<^verbatim>\<open>str\<close> of the database value); the empty text stands for a
  missing or false identifier. A database column that is \<^verbatim>\<open>NULL\<close> is \<open>None\<close>.
\<close>

record lead_ctx =
  lead_id :: string
  nome :: "string option"
  email :: "string option"
  empresa :: "string option"

record lead_full = lead_ctx +
  telefone :: "string option"
  status_codigo :: string

text \<open>An action of the pending queue: \<^verbatim>\<open>{"intent": ..., "slots": {...}}\<close>.\<close>

record action =
  a_intent :: string
  a_slots :: pydict

text \<open>A segment of \<^verbatim>\<open>context.ai_responses\<close>, as \<^verbatim>\<open>push_ai_response\<close> builds it.\<close>

record segment =
  seg_intent :: string
  seg_text :: string
  seg_ok :: bool
  seg_data :: pydict

text \<open>
  The context dictionary. A key that is absent reads as \<^verbatim>\<open>None\<close>, which every reader
  of these keys treats like the empty list or \<^verbatim>\<open>False\<close>; the record holds that reading.
  The keys \<^verbatim>\<open>planner_debug\<close> and \<^verbatim>\<open>planner_error\<close> are written for display and
  never read; they are left out.
\<close>

record ctx =
  pending_actions :: "action list"
  ai_responses :: "segment list"
  router_blocked :: bool
  router_missing :: "string list"
  need_lead_resolution :: bool
  lead_resolution_attempted :: bool
  replanned :: bool
  matches :: "lead_ctx list"

definition empty_ctx :: ctx where
  "empty_ctx =
     \<lparr>pending_actions = [], ai_responses = [], router_blocked = False, router_missing = [],
      need_lead_resolution = False, lead_resolution_attempted = False, replanned = False,
      matches = []\<rparr>"

text \<open>
  Messages. The content of a human, assistant or system message is its text; the content
  of a tool message is a Python value (a dictionary or a string).
\<close>

datatype msg =
    HumanMessage string
  | AIMessage string
  | SystemMessage string
  | ToolMessage string pyval

fun is_human :: "msg \<Rightarrow> bool" where
  "is_human (HumanMessage _) = True"
| "is_human _ = False"

fun extract_text_content :: "msg \<Rightarrow> string" where
  "extract_text_content (HumanMessage t) = t"
| "extract_text_content (AIMessage t) = t"
| "extract_text_content (SystemMessage t) = t"
| "extract_text_content (ToolMessage n c) = (case c of PStr t \<Rightarrow> t | _ \<Rightarrow> [])"

text \<open>
  The state of the graph, and the partial update a node returns. The key \<^verbatim>\<open>context\<close>
  of the state is the field \<open>s_context\<close>.
\<close>

record agent_state =
  messages :: "msg list"
  intent :: "string option"
  slots :: pydict
  lead_atual :: "lead_ctx option"
  errors :: "string list"
  s_context :: ctx

record update =
  u_messages :: "msg list"
  u_intent :: "string option"
  u_slots :: "pydict option"
  u_lead_atual :: "lead_ctx option"
  u_errors :: "string list option"
  u_context :: "ctx option"

definition no_update :: update where
  "no_update =
     \<lparr>u_messages = [], u_intent = None, u_slots = None, u_lead_atual = None,
      u_errors = None, u_context = None\<rparr>"

text \<open>
  A key of the update replaces the key of the state; \<^verbatim>\<open>messages\<close> has the reducer
  \<^verbatim>\<open>add_messages\<close>, which appends.
\<close>

definition apply_update :: "update \<Rightarrow> agent_state \<Rightarrow> agent_state" where
  "apply_update u s =
     s\<lparr>messages := messages s @ u_messages u,
       intent := (case u_intent u of None \<Rightarrow> intent s | Some i \<Rightarrow> Some i),
       slots := (case u_slots u of None \<Rightarrow> slots s | Some sl \<Rightarrow> sl),
       lead_atual := (case u_lead_atual u of None \<Rightarrow> lead_atual s | Some l \<Rightarrow> Some l),
       errors := (case u_errors u of None \<Rightarrow> errors s | Some e \<Rightarrow> e),
       s_context := (case u_context u of None \<Rightarrow> s_context s | Some c \<Rightarrow> c)\<rparr>"

definition has_lead :: "lead_ctx option \<Rightarrow> bool" where
  "has_lead la = (case la of None \<Rightarrow> False | Some l \<Rightarrow> lead_id l \<noteq> [])"

definition slot_truthy :: "pydict \<Rightarrow> string \<Rightarrow> bool" where
  "slot_truthy d k = truthy (dict_get d k)"

section \<open>External collaborators\<close>

text \<open>
  The result envelope of a tool: \<^verbatim>\<open>{"message": ..., "data": d}\<close> on success,
  \<^verbatim>\<open>{"error": {"message": m, "matches": ms}}\<close> on failure, where a missing key
  \<^verbatim>\<open>matches\<close> is the empty list.
\<close>

datatype 'd envelope = Ok 'd | Err string "lead_ctx list"

type_synonym tool_result = "pydict envelope"

text \<open>What the planner wrapper returns for one action: an intent and a list of slot blobs.\<close>

record plan_action =
  pa_intent :: string
  pa_slots :: "pyval list"

text \<open>
  Everything outside the orchestration is a parameter: the database as the queries of
  \<^verbatim>\<open>tools.py\<close> see it, the tools for notes and tasks, the language models (each taken
  after its fixed system prompt), the two ReAct subgraphs, and the library functions
  \<^verbatim>\<open>json.loads\<close>, \<^verbatim>\<open>json.dumps\<close>, \<^verbatim>\<open>ast.literal_eval\<close> and the regular-expression
  rewrites of the plan normalizer. A query takes the Python argument the code builds for
  it. Any functions may be supplied; every theorem below holds for all of them.
\<close>

record env =
  db_conn :: bool
  db_by_id :: "string \<Rightarrow> lead_ctx option outcome"
  db_by_email :: "string \<Rightarrow> lead_ctx option outcome"
  db_by_phone :: "string \<Rightarrow> lead_ctx option outcome"
  db_like :: "string \<Rightarrow> lead_ctx list outcome"
  db_lead :: "string \<Rightarrow> lead_full option outcome"
  add_note_to_lead :: "string \<Rightarrow> pyval \<Rightarrow> tool_result outcome"
  list_notes :: "string \<Rightarrow> tool_result outcome"
  create_task :: "pydict \<Rightarrow> tool_result outcome"
  complete_task :: "string \<Rightarrow> tool_result outcome"
  list_tasks :: "pydict \<Rightarrow> tool_result outcome"
  list_lead_status :: "tool_result outcome"
  parser_llm :: "msg list \<Rightarrow> (string \<times> string list) outcome"
  plan_llm :: "msg list \<Rightarrow> plan_action list outcome"
  finalizer_model :: "string \<Rightarrow> string outcome"
  leads_agent :: "agent_state \<Rightarrow> msg list outcome"
  proposals_agent :: "agent_state \<Rightarrow> msg list outcome"
  json_loads :: "string \<Rightarrow> pyval outcome"
  json_dumps :: "pyval \<Rightarrow> string outcome"
  literal_eval :: "string \<Rightarrow> pyval outcome"
  re_search_actions :: "string \<Rightarrow> string option"
  re_sub_keys :: "string \<Rightarrow> string"
  re_sub_uuid :: "string \<Rightarrow> string"
  repr_container :: "pyval \<Rightarrow> string"
  today :: string
  tomorrow :: string

subsection \<open>\<^verbatim>\<open>str\<close> of a value\<close>

fun show_nat :: "nat \<Rightarrow> string" where
  "show_nat n =
     (if n < 10 then [char_of (48 + n)]
      else show_nat (n div 10) @ [char_of (48 + n mod 10)])"

definition show_int :: "int \<Rightarrow> string" where
  "show_int i = (if i < 0 then CHR ''-'' # show_nat (nat (- i)) else show_nat (nat i))"

definition py_str :: "env \<Rightarrow> pyval \<Rightarrow> string" where
  "py_str e v =
     (case v of
        PNone \<Rightarrow> ''None''
      | PBool b \<Rightarrow> (if b then ''True'' else ''False'')
      | PInt i \<Rightarrow> show_int i
      | PStr s \<Rightarrow> s
      | _ \<Rightarrow> repr_container e v)"

section \<open>\<^verbatim>\<open>tools.py\<close>: resolving a lead reference\<close>

definition normalize_phone :: "string \<Rightarrow> string" where
  "normalize_phone s = filter is_digit s"

text \<open>
  \<^verbatim>\<open>UUID_RE = ^[0-9a-fA-F-]{36}$\<close> with \<^verbatim>\<open>match\<close>: 36 characters of the class, then
  the end of the text or one last line feed.
\<close>

definition is_uuid :: "string \<Rightarrow> bool" where
  "is_uuid s =
     (s \<noteq> [] \<and> 36 \<le> length s \<and>
      list_all (\<lambda>c. is_hex c \<or> c = CHR ''-'') (take 36 s) \<and>
      (drop 36 s = [] \<or> drop 36 s = [newline]))"

definition row_id :: "lead_ctx option \<Rightarrow> string option \<times> lead_ctx list" where
  "row_id row = (case row of Some r \<Rightarrow> (Some (lead_id r), []) | None \<Rightarrow> (None, []))"

definition map_outcome :: "('a \<Rightarrow> 'b) \<Rightarrow> 'a outcome \<Rightarrow> 'b outcome" where
  "map_outcome f x = (case x of Raised \<Rightarrow> Raised | Returned a \<Rightarrow> Returned (f a))"

definition resolve_lead_id_by_ref :: "env \<Rightarrow> string \<Rightarrow> (string option \<times> lead_ctx list) outcome" where
  "resolve_lead_id_by_ref e ref0 =
     (if ref0 = [] then Returned (None, [])
      else let ref = strip ref0 in
        if is_uuid ref then map_outcome row_id (db_by_id e ref)
        else if CHR ''@'' \<in> set ref then map_outcome row_id (db_by_email e ref)
        else let digits = normalize_phone ref in
          if 8 \<le> length digits then map_outcome row_id (db_by_phone e digits)
          else map_outcome
                 (\<lambda>rows. if length rows = 1 then (Some (lead_id (hd rows)), [])
                          else (None, rows))
                 (db_like e ref))"

definition id_truthy :: "string option \<Rightarrow> bool" where
  "id_truthy i = (case i of None \<Rightarrow> False | Some x \<Rightarrow> x \<noteq> [])"

definition msg_not_found :: string where
  "msg_not_found = ''Lead n'' @ [CHR 0xE3] @ ''o encontrado''"

definition msg_ambiguous :: string where
  "msg_ambiguous = ''Mais de um lead corresponde''"

text \<open>The tool \<^verbatim>\<open>get_lead\<close>. Opening the connection may raise, as may every query.\<close>

definition get_lead :: "env \<Rightarrow> string \<Rightarrow> lead_full envelope outcome" where
  "get_lead e ref =
     (if \<not> db_conn e then Raised
      else case resolve_lead_id_by_ref e ref of
        Raised \<Rightarrow> Raised
      | Returned (lid, ms) \<Rightarrow>
          if id_truthy lid then
            (case db_lead e (the lid) of
               Raised \<Rightarrow> Raised
             | Returned None \<Rightarrow> Returned (Err msg_not_found [])
             | Returned (Some row) \<Rightarrow> Returned (Ok row))
          else if ms \<noteq> [] then Returned (Err msg_ambiguous ms)
          else Returned (Err msg_not_found []))"

text \<open>The tool \<^verbatim>\<open>resolve_lead\<close>; its data is the identifier alone.\<close>

definition tool_resolve_lead :: "env \<Rightarrow> string \<Rightarrow> string envelope outcome" where
  "tool_resolve_lead e ref =
     (if \<not> db_conn e then Raised
      else case resolve_lead_id_by_ref e ref of
        Raised \<Rightarrow> Raised
      | Returned (lid, ms) \<Rightarrow>
          if id_truthy lid then Returned (Ok (the lid))
          else if ms \<noteq> [] then Returned (Err msg_ambiguous ms)
          else Returned (Err msg_not_found []))"

section \<open>\<^verbatim>\<open>helpers.py\<close>\<close>

definition ensure_context :: "agent_state \<Rightarrow> ctx" where
  "ensure_context s = s_context s"

text \<open>
  \<^verbatim>\<open>lead_context_from_result\<close>; the argument \<open>None\<close> is the empty dictionary that
  \<^verbatim>\<open>resp or {}\<close> gives for a call that raised.
\<close>

definition lead_context_from_result :: "lead_full envelope option \<Rightarrow> lead_ctx option" where
  "lead_context_from_result result =
     (case result of
        None \<Rightarrow> None
      | Some (Err m ms) \<Rightarrow> None
      | Some (Ok d) \<Rightarrow>
          if lead_id d = [] then None
          else Some \<lparr>lead_id = lead_id d, nome = nome d, email = email d, empresa = empresa d\<rparr>)"

definition try_get_lead :: "env \<Rightarrow> string \<Rightarrow> lead_full envelope option" where
  "try_get_lead e ref = (case get_lead e ref of Raised \<Rightarrow> None | Returned r \<Rightarrow> Some r)"

definition get_lead_context :: "env \<Rightarrow> pyval \<Rightarrow> lead_ctx option" where
  "get_lead_context e ref =
     (if \<not> truthy ref then None
      else case get_lead e (py_str e ref) of
        Raised \<Rightarrow> None
      | Returned r \<Rightarrow> lead_context_from_result (Some r))"

definition has_pending :: "agent_state \<Rightarrow> string" where
  "has_pending s = (if pending_actions (ensure_context s) \<noteq> [] then ''execute'' else ''done'')"

definition push_ai_response :: "ctx \<Rightarrow> string \<Rightarrow> string \<Rightarrow> bool \<Rightarrow> pydict \<Rightarrow> ctx" where
  "push_ai_response c i t ok d =
     c\<lparr>ai_responses := ai_responses c @
          [\<lparr>seg_intent = i, seg_text = t, seg_ok = ok, seg_data = d\<rparr>]\<rparr>"

section \<open>\<^verbatim>\<open>workflow.py\<close>: constants\<close>

definition LEAD_INTENTS :: "string set" where
  "LEAD_INTENTS =
     {''lead_criar'', ''lead_obter'', ''lead_buscar'', ''lead_listar'', ''lead_atualizar''}"

definition NOTE_INTENTS :: "string set" where
  "NOTE_INTENTS = {''nota_adicionar'', ''nota_listar''}"

definition TASK_INTENTS :: "string set" where
  "TASK_INTENTS = {''tarefa_criar'', ''tarefa_concluir'', ''tarefa_listar''}"

definition PROPOSAL_INTENTS :: "string set" where
  "PROPOSAL_INTENTS =
     {''proposta_rascunhar'', ''proposta_adicionar_item'', ''proposta_calcular_totais'',
      ''proposta_listar'', ''proposta_exportar'', ''proposta_atualizar_corpo''}"

definition INTENTS_REQUIRING_LEAD :: "string set" where
  "INTENTS_REQUIRING_LEAD =
     {''lead_obter'', ''lead_atualizar'', ''nota_adicionar'', ''nota_listar'',
      ''tarefa_criar'', ''tarefa_listar'', ''proposta_rascunhar'', ''proposta_listar''}"

text \<open>\<^verbatim>\<open>REQUIRED_SLOTS.get(intent, [])\<close>.\<close>

definition REQUIRED_SLOTS :: "string \<Rightarrow> string list" where
  "REQUIRED_SLOTS i =
     (if i = ''lead_criar'' then [''nome'']
      else if i = ''lead_obter'' then [''lead_ref_ou_id'']
      else if i = ''lead_buscar'' then [''consulta'']
      else if i = ''lead_atualizar'' then [''lead_ref_ou_id'']
      else if i = ''nota_adicionar'' then [''texto'']
      else if i = ''tarefa_criar'' then [''titulo'']
      else if i = ''tarefa_concluir'' then [''tarefa_id'']
      else if i = ''proposta_rascunhar'' then [''titulo'']
      else if i = ''proposta_adicionar_item''
        then [''proposta_id'', ''descricao'', ''quantidade'', ''preco_unitario'']
      else if i = ''proposta_calcular_totais'' then [''proposta_id'']
      else if i = ''proposta_exportar'' then [''proposta_id'', ''formato'']
      else if i = ''proposta_atualizar_corpo'' then [''proposta_id'', ''corpo_md'']
      else [])"

definition lead_ref_ou_id :: string where
  "lead_ref_ou_id = ''lead_ref_ou_id''"

definition intent_in :: "string option \<Rightarrow> string set \<Rightarrow> bool" where
  "intent_in i S = (case i of None \<Rightarrow> False | Some x \<Rightarrow> x \<in> S)"

definition intent_text :: "string option \<Rightarrow> string" where
  "intent_text i = (case i of None \<Rightarrow> ''None'' | Some x \<Rightarrow> x)"

section \<open>\<^verbatim>\<open>workflow.py\<close>: router\<close>

definition route_intent :: "agent_state \<Rightarrow> string" where
  "route_intent s =
     (if need_lead_resolution (s_context s) then ''resolve_lead''
      else if intent_in (intent s) LEAD_INTENTS then ''handle_leads''
      else if intent_in (intent s) NOTE_INTENTS then ''handle_notes''
      else if intent_in (intent s) TASK_INTENTS then ''handle_tasks''
      else if intent_in (intent s) PROPOSAL_INTENTS then ''handle_proposals''
      else if intent s = Some ''listar_status_lead'' then ''respond_final''
      else ''respond_final'')"

text \<open>\<^verbatim>\<open>value in (None, "", [])\<close>.\<close>

definition is_blank :: "pyval \<Rightarrow> bool" where
  "is_blank v = (v = PNone \<or> v = PStr [] \<or> v = PList [])"

definition router_missing_of :: "agent_state \<Rightarrow> string list" where
  "router_missing_of s =
     (let sl = slots s; la = lead_atual s;
          required = REQUIRED_SLOTS (case intent s of None \<Rightarrow> [] | Some x \<Rightarrow> x);
          m1 = filter (\<lambda>name.
                  \<not> (name = lead_ref_ou_id \<and> (slot_truthy sl name \<or> has_lead la)) \<and>
                  is_blank (dict_get sl name)) required
      in if intent_in (intent s) INTENTS_REQUIRING_LEAD \<and> \<not> slot_truthy sl lead_ref_ou_id
            \<and> \<not> has_lead la
         then m1 @ [lead_ref_ou_id] else m1)"

definition router_slots_of :: "agent_state \<Rightarrow> pydict" where
  "router_slots_of s =
     (if intent_in (intent s) INTENTS_REQUIRING_LEAD \<and> \<not> slot_truthy (slots s) lead_ref_ou_id
         \<and> has_lead (lead_atual s)
      then dict_set lead_ref_ou_id (PStr (lead_id (the (lead_atual s)))) (slots s)
      else slots s)"

definition router_node :: "agent_state \<Rightarrow> update" where
  "router_node s =
     (let missing = router_missing_of s;
          sl = router_slots_of s;
          requires = intent_in (intent s) INTENTS_REQUIRING_LEAD;
          c0 = ensure_context s;
          errs = (if missing \<noteq> []
                  then errors s @
                    [''Para '' @ intent_text (intent s) @ '' preciso de: '' @
                     join '', '' (sort (remdups missing)) @ ''.'']
                  else errors s);
          c1 = (if missing \<noteq> []
                then (let c = c0\<lparr>router_missing := sort (remdups missing), router_blocked := True\<rparr>
                      in if requires \<and> lead_ref_ou_id \<in> set missing
                            \<and> \<not> lead_resolution_attempted c
                         then c\<lparr>need_lead_resolution := True\<rparr> else c)
                else c0\<lparr>router_missing := [], router_blocked := False,
                        need_lead_resolution := False\<rparr>);
          c2 = (if requires \<and> slot_truthy sl lead_ref_ou_id \<and> \<not> has_lead (lead_atual s)
                   \<and> \<not> lead_resolution_attempted c1
                then c1\<lparr>need_lead_resolution := True\<rparr> else c1)
      in no_update\<lparr>u_slots := Some sl, u_context := Some c2,
                   u_errors := (if errs \<noteq> [] then Some errs else None)\<rparr>)"

section \<open>\<^verbatim>\<open>workflow.py\<close>: lead resolution\<close>

definition unblocked :: "ctx \<Rightarrow> ctx" where
  "unblocked c = c\<lparr>need_lead_resolution := False, router_blocked := False\<rparr>"

definition resolved :: "ctx \<Rightarrow> pydict \<Rightarrow> string \<Rightarrow> lead_ctx \<Rightarrow> update" where
  "resolved c sl lid lead =
     no_update\<lparr>u_slots := Some (dict_set lead_ref_ou_id (PStr lid) sl),
               u_lead_atual := Some lead, u_context := Some (unblocked c)\<rparr>"

definition disambiguate :: "ctx \<Rightarrow> lead_ctx list \<Rightarrow> update" where
  "disambiguate c ms =
     no_update\<lparr>u_context :=
       Some (c\<lparr>matches := ms, need_lead_resolution := False, router_blocked := True\<rparr>)\<rparr>"

text \<open>Step 2: the explicit reference slot.\<close>

definition resolve_from_slot :: "env \<Rightarrow> agent_state \<Rightarrow> ctx \<Rightarrow> update option" where
  "resolve_from_slot e s c =
     (let ref_slot = dict_get (slots s) lead_ref_ou_id
      in if \<not> truthy ref_slot then None
         else let resp = try_get_lead e (py_str e ref_slot)
              in case lead_context_from_result resp of
                   Some lead \<Rightarrow> Some (resolved c (slots s) (lead_id lead) lead)
                 | None \<Rightarrow>
                     (case resp of
                        Some (Err m ms) \<Rightarrow> if ms \<noteq> [] then Some (disambiguate c ms) else None
                      | _ \<Rightarrow> None))"

text \<open>Step 3: a reference taken from the text of the last message.\<close>

definition resolve_from_text :: "env \<Rightarrow> agent_state \<Rightarrow> ctx \<Rightarrow> update option" where
  "resolve_from_text e s c =
     (let text = (if messages s = [] then [] else extract_text_content (last (messages s)))
      in case extract_ref_from_text text of
           None \<Rightarrow> None
         | Some ref_direct \<Rightarrow>
             if ref_direct = [] then None
             else (case lead_context_from_result (try_get_lead e ref_direct) of
                     Some lead \<Rightarrow> Some (resolved c (slots s) (lead_id lead) lead)
                   | None \<Rightarrow> None))"

text \<open>Step 4: a search term built from the slots \<^verbatim>\<open>nome\<close> and \<^verbatim>\<open>empresa\<close>.\<close>

definition search_term :: "env \<Rightarrow> pydict \<Rightarrow> string" where
  "search_term e sl =
     strip (join '' ''
       (map (\<lambda>k. py_str e (dict_get sl k))
            (filter (\<lambda>k. slot_truthy sl k) [''nome'', ''empresa''])))"

definition resolve_from_aux :: "env \<Rightarrow> agent_state \<Rightarrow> ctx \<Rightarrow> update option" where
  "resolve_from_aux e s c =
     (let term = search_term e (slots s)
      in if term = [] then None
         else case tool_resolve_lead e term of
           Raised \<Rightarrow> None
         | Returned (Ok lid) \<Rightarrow>
             if lid = [] then None
             else (case get_lead_context e (PStr lid) of
                     Some lead \<Rightarrow> Some (resolved c (slots s) lid lead)
                   | None \<Rightarrow> None)
         | Returned (Err m ms) \<Rightarrow> if ms \<noteq> [] then Some (disambiguate c ms) else None)"

definition resolve_lead :: "env \<Rightarrow> agent_state \<Rightarrow> update" where
  "resolve_lead e s =
     (let c = (ensure_context s)\<lparr>lead_resolution_attempted := True\<rparr>
      in if has_lead (lead_atual s) then no_update\<lparr>u_context := Some (unblocked c)\<rparr>
         else case resolve_from_slot e s c of
           Some u \<Rightarrow> u
         | None \<Rightarrow>
             (case resolve_from_text e s c of
                Some u \<Rightarrow> u
              | None \<Rightarrow>
                  (case resolve_from_aux e s c of
                     Some u \<Rightarrow> u
                   | None \<Rightarrow>
                       no_update\<lparr>u_context := Some (unblocked c),
                                 u_slots := Some (slots s)\<rparr>)))"

section \<open>\<^verbatim>\<open>workflow.py\<close>: pending queue executor\<close>

definition execute_pending :: "agent_state \<Rightarrow> update" where
  "execute_pending s =
     (let c = ensure_context s
      in case pending_actions c of
           [] \<Rightarrow> no_update
         | action # rest \<Rightarrow>
             (let act_slots =
                    (if \<not> slot_truthy (a_slots action) lead_ref_ou_id \<and> has_lead (lead_atual s)
                     then dict_set lead_ref_ou_id (PStr (lead_id (the (lead_atual s))))
                            (a_slots action)
                     else a_slots action)
              in no_update\<lparr>u_context := Some (c\<lparr>pending_actions := rest\<rparr>),
                           u_intent := Some (a_intent action),
                           u_slots := Some act_slots\<rparr>))"

section \<open>\<^verbatim>\<open>workflow.py\<close>: plan normalizer\<close>

text \<open>
  A call that may raise is an \<open>outcome\<close>; \<open>bind_outcome\<close> lets an exception pass
  through, \<open>catch\<close> is \<^verbatim>\<open>try: ... except Exception: ...\<close>.
\<close>

definition bind_outcome :: "'a outcome \<Rightarrow> ('a \<Rightarrow> 'b outcome) \<Rightarrow> 'b outcome" where
  "bind_outcome x f = (case x of Raised \<Rightarrow> Raised | Returned a \<Rightarrow> f a)"

definition catch :: "'a outcome \<Rightarrow> 'a outcome \<Rightarrow> 'a outcome" where
  "catch x handler = (case x of Raised \<Rightarrow> handler | Returned a \<Rightarrow> Returned a)"

definition dquote :: char where
  "dquote = CHR 0x22"

definition squote :: char where
  "squote = CHR 0x27"

definition replace_quotes :: "string \<Rightarrow> string" where
  "replace_quotes t = map (\<lambda>c. if c = squote then dquote else c) t"

text \<open>
  \<^verbatim>\<open>normalize_json_like\<close>. The text starts with \<^verbatim>\<open>actions=\<close> where the first branch
  replaces its first occurrence, so the occurrence replaced is the one at the start. The
  substitution that quotes bareword keys is the parameter \<open>re_sub_keys\<close>.
\<close>

definition normalize_json_like :: "env \<Rightarrow> string \<Rightarrow> string" where
  "normalize_json_like e s =
     (let t0 = strip s;
          t1 = (if startswith t0 ''actions=''
                then ''{'' @ [dquote] @ ''actions'' @ [dquote] @ '':'' @ drop 8 t0 @ ''}''
                else t0);
          t2 = (if startswith t1 ''['' \<and> endswith t1 '']''
                then ''{'' @ [dquote] @ ''actions'' @ [dquote] @ '': '' @ t1 @ ''}''
                else t1)
      in replace_quotes (re_sub_keys e t2))"

record raw_action =
  ra_intent :: pyval
  ra_slots :: "pyval list"

text \<open>One element of the \<^verbatim>\<open>actions\<close> list; \<open>None\<close> when the element is skipped.\<close>

definition clean_action :: "env \<Rightarrow> pyval \<Rightarrow> raw_action option outcome" where
  "clean_action e it =
     (case it of
        PDict d \<Rightarrow>
          bind_outcome
            (case map_of d ''slots'' of
               None \<Rightarrow> Returned []
             | Some (PList xs) \<Rightarrow> Returned xs
             | Some (PDict sd) \<Rightarrow>
                 catch (bind_outcome (json_dumps e (PDict sd)) (\<lambda>t. Returned [PStr t]))
                       (Returned [])
             | Some _ \<Rightarrow> Returned [])
            (\<lambda>sl. Returned
               (if truthy (dict_get d ''intent'')
                then Some \<lparr>ra_intent = dict_get d ''intent'', ra_slots = sl\<rparr>
                else None))
      | _ \<Rightarrow> Returned None)"

fun clean_actions :: "env \<Rightarrow> pyval list \<Rightarrow> raw_action list outcome" where
  "clean_actions e [] = Returned []"
| "clean_actions e (it # its) =
     bind_outcome (clean_action e it) (\<lambda>a.
       bind_outcome (clean_actions e its) (\<lambda>as.
         Returned (case a of None \<Rightarrow> as | Some x \<Rightarrow> x # as)))"

text \<open>The three attempts at parsing; \<open>PNone\<close> is \<^verbatim>\<open>obj = None\<close>.\<close>

definition load_plan_object :: "env \<Rightarrow> string \<Rightarrow> pyval outcome" where
  "load_plan_object e raw =
     catch (json_loads e raw)
       (case re_search_actions e raw of
          Some m \<Rightarrow>
            (let snippet = normalize_json_like e m
             in catch (json_loads e snippet) (Returned PNone))
        | None \<Rightarrow> catch (json_loads e (normalize_json_like e raw)) (Returned PNone))"

definition parse_plan_actions_from_text :: "env \<Rightarrow> string \<Rightarrow> raw_action list outcome" where
  "parse_plan_actions_from_text e text =
     bind_outcome (load_plan_object e (strip text)) (\<lambda>obj.
       case obj of
         PDict d \<Rightarrow>
           (case dict_get d ''actions'' of
              PList actions \<Rightarrow> clean_actions e actions
            | _ \<Rightarrow> Returned [])
       | _ \<Rightarrow> Returned [])"

text \<open>\<^verbatim>\<open>slots_strings_to_dict\<close>: one blob after the other into the mapping \<open>out\<close>.\<close>

definition slot_fallback :: "string \<Rightarrow> pydict \<Rightarrow> pydict" where
  "slot_fallback txt out =
     (if CHR ''='' \<in> set txt
      then dict_set (strip (fst (split_eq txt))) (PStr (strip (snd (split_eq txt)))) out
      else out)"

definition slot_blob :: "env \<Rightarrow> pyval \<Rightarrow> pydict \<Rightarrow> pydict outcome" where
  "slot_blob e s out =
     (case s of
        PStr raw \<Rightarrow>
          (let txt = strip raw
           in if startswith txt ''{'' \<and> endswith txt ''}''
              then catch
                     (bind_outcome (json_loads e (replace_quotes (re_sub_keys e txt))) (\<lambda>data.
                        case data of
                          PDict d \<Rightarrow> Returned (dict_update out d)
                        | _ \<Rightarrow> Returned (slot_fallback txt out)))
                     (Returned (slot_fallback txt out))
              else Returned (slot_fallback txt out))
      | _ \<Rightarrow> Returned out)"

fun slots_loop :: "env \<Rightarrow> pyval list \<Rightarrow> pydict \<Rightarrow> pydict outcome" where
  "slots_loop e [] out = Returned out"
| "slots_loop e (s # ss) out = bind_outcome (slot_blob e s out) (slots_loop e ss)"

definition slots_strings_to_dict :: "env \<Rightarrow> pyval list \<Rightarrow> pydict outcome" where
  "slots_strings_to_dict e slots_strings = slots_loop e slots_strings []"

text \<open>
  \<^verbatim>\<open>PlannerWrapper.invoke\<close> for a model that answers \<open>reply\<close>: the parsed actions as
  they are handed on.
\<close>

definition planner_wrapper :: "env \<Rightarrow> string outcome \<Rightarrow> raw_action list outcome" where
  "planner_wrapper e reply = bind_outcome reply (parse_plan_actions_from_text e)"

section \<open>\<^verbatim>\<open>workflow.py\<close>: deduplication and prerequisite scheduling\<close>

subsection \<open>The dedup key\<close>

text \<open>
  \<^verbatim>\<open>k(x) = (x["intent"], tuple(sorted(x["slots"].items())))\<close>. The items are pairs with
  distinct names, so sorting them orders them by name. Keys meet in a Python set, which
  hashes them and compares them with \<^verbatim>\<open>==\<close>: a slot value that is a list or a
  dictionary cannot be hashed and raises \<^verbatim>\<open>TypeError\<close>, and \<^verbatim>\<open>True == 1\<close> and
  \<^verbatim>\<open>False == 0\<close> hold.
\<close>

type_synonym dedup_key = "string \<times> (string \<times> pyval) list"

definition k :: "action \<Rightarrow> dedup_key" where
  "k x = (a_intent x, sort_key fst (a_slots x))"

fun hashable :: "pyval \<Rightarrow> bool" where
  "hashable (PList xs) = False"
| "hashable (PDict d) = False"
| "hashable v = True"

definition hashable_action :: "action \<Rightarrow> bool" where
  "hashable_action x = list_all (\<lambda>p. hashable (snd p)) (a_slots x)"

fun num_norm :: "pyval \<Rightarrow> pyval" where
  "num_norm (PBool b) = PInt (if b then 1 else 0)"
| "num_norm v = v"

definition py_eq :: "pyval \<Rightarrow> pyval \<Rightarrow> bool" where
  "py_eq v w = (num_norm v = num_norm w)"

definition key_eq :: "dedup_key \<Rightarrow> dedup_key \<Rightarrow> bool" where
  "key_eq a b =
     (fst a = fst b \<and> list_all2 (\<lambda>p q. fst p = fst q \<and> py_eq (snd p) (snd q)) (snd a) (snd b))"

definition key_in :: "dedup_key \<Rightarrow> dedup_key list \<Rightarrow> bool" where
  "key_in x keys = list_ex (key_eq x) keys"

subsection \<open>The merge loop\<close>

text \<open>
  \<^verbatim>\<open>for act in new_actions: if k(act) not in keys: pending.append(act); keys.add(k(act))\<close>.
  The list \<open>pending\<close> is changed in place, so what was appended before an exception
  stays appended; the flag says whether the loop raised.
\<close>

fun merge_loop :: "dedup_key list \<Rightarrow> action list \<Rightarrow> action list \<Rightarrow> action list \<times> bool" where
  "merge_loop keys pending [] = (pending, False)"
| "merge_loop keys pending (act # acts) =
     (if \<not> hashable_action act then (pending, True)
      else if key_in (k act) keys then merge_loop keys pending acts
      else merge_loop (keys @ [k act]) (pending @ [act]) acts)"

text \<open>\<^verbatim>\<open>keys = {k(x) for x in pending}\<close>, then the loop.\<close>

definition merge_actions :: "action list \<Rightarrow> action list \<Rightarrow> action list \<times> bool" where
  "merge_actions pending new_actions =
     (if \<not> list_all hashable_action pending then (pending, True)
      else merge_loop (map k pending) pending new_actions)"

subsection \<open>\<^verbatim>\<open>parse_and_classify\<close>\<close>

definition classify_slots :: "string list \<Rightarrow> pydict" where
  "classify_slots strs =
     fold (\<lambda>slot_str d.
             if CHR ''='' \<in> set slot_str
             then dict_set (strip (fst (split_eq slot_str)))
                    (PStr (strip (snd (split_eq slot_str)))) d
             else d) strs []"

definition parse_and_classify :: "env \<Rightarrow> agent_state \<Rightarrow> update outcome" where
  "parse_and_classify e s =
     bind_outcome (parser_llm e (messages s)) (\<lambda>parsed.
       Returned (no_update\<lparr>u_intent := Some (fst parsed),
                           u_slots := Some (classify_slots (snd parsed))\<rparr>))"

subsection \<open>\<^verbatim>\<open>prepare_plan\<close>\<close>

text \<open>
  The body of the loop over \<^verbatim>\<open>plan.actions\<close> for one action: \<open>None\<close> when the action
  is skipped. The same rules are applied by the re-plan of \<^verbatim>\<open>update_context\<close>, which
  converts the slots before it tests the intent.
\<close>

definition default_and_inject :: "string \<Rightarrow> lead_ctx option \<Rightarrow> pydict \<Rightarrow> pydict" where
  "default_and_inject intent_a lead sl =
     (let s1 = (if intent_a = ''proposta_rascunhar'' \<and> ''moeda'' \<notin> fst ` set sl
                then dict_set ''moeda'' (PStr ''BRL'') sl else sl)
      in if intent_a \<in> INTENTS_REQUIRING_LEAD \<and> \<not> slot_truthy s1 lead_ref_ou_id
            \<and> has_lead lead
         then dict_set lead_ref_ou_id (PStr (lead_id (the lead))) s1
         else s1)"

definition skip_planned :: "string option \<Rightarrow> lead_ctx option \<Rightarrow> string \<Rightarrow> bool" where
  "skip_planned primary lead intent_a =
     ((case primary of None \<Rightarrow> False | Some p \<Rightarrow> p \<noteq> [] \<and> intent_a = p) \<or>
      (intent_a = ''lead_criar'' \<and> has_lead lead))"

definition plan_one :: "env \<Rightarrow> string option \<Rightarrow> lead_ctx option \<Rightarrow> plan_action
    \<Rightarrow> action option outcome" where
  "plan_one e primary lead a =
     (if skip_planned primary lead (pa_intent a) then Returned None
      else bind_outcome (slots_strings_to_dict e (pa_slots a)) (\<lambda>norm_slots.
             Returned (Some \<lparr>a_intent = pa_intent a,
                             a_slots = default_and_inject (pa_intent a) lead norm_slots\<rparr>)))"

fun plan_loop :: "(plan_action \<Rightarrow> action option outcome) \<Rightarrow> plan_action list
    \<Rightarrow> action list outcome" where
  "plan_loop f [] = Returned []"
| "plan_loop f (a # as) =
     bind_outcome (f a) (\<lambda>x.
       bind_outcome (plan_loop f as) (\<lambda>xs.
         Returned (case x of None \<Rightarrow> xs | Some y \<Rightarrow> y # xs)))"

text \<open>
  Step 1, inside \<^verbatim>\<open>try\<close>: the planner is called, its actions are normalized and merged
  into the queue. When anything raises before the merge, the queue is as it was.
\<close>

definition planned_queue :: "env \<Rightarrow> agent_state \<Rightarrow> action list" where
  "planned_queue e s =
     (let pending = pending_actions (ensure_context s)
      in case bind_outcome (plan_llm e (messages s))
                (plan_loop (plan_one e (intent s) (lead_atual s))) of
           Raised \<Rightarrow> pending
         | Returned new_actions \<Rightarrow> fst (merge_actions pending new_actions))"

definition needs_lead :: "agent_state \<Rightarrow> bool" where
  "needs_lead s =
     (intent_in (intent s) INTENTS_REQUIRING_LEAD \<and>
      \<not> (slot_truthy (slots s) lead_ref_ou_id \<or> has_lead (lead_atual s)))"

definition is_lead_criar :: "action \<Rightarrow> bool" where
  "is_lead_criar act = (a_intent act = ''lead_criar'')"

text \<open>\<^verbatim>\<open>pending.pop(i)\<close> for the first index that satisfies the test.\<close>

fun pop_first :: "('a \<Rightarrow> bool) \<Rightarrow> 'a list \<Rightarrow> 'a list" where
  "pop_first P [] = []"
| "pop_first P (x # xs) = (if P x then xs else x # pop_first P xs)"

definition prepare_plan :: "env \<Rightarrow> agent_state \<Rightarrow> update" where
  "prepare_plan e s =
     (let pending = planned_queue e s;
          c = (ensure_context s)\<lparr>pending_actions := pending\<rparr>
      in if needs_lead s \<and> pending \<noteq> [] then
           (case find is_lead_criar pending of
              Some lead_action \<Rightarrow>
                no_update\<lparr>u_context := Some (c\<lparr>pending_actions := pop_first is_lead_criar pending\<rparr>),
                          u_intent := Some ''lead_criar'',
                          u_slots := Some (a_slots lead_action)\<rparr>
            | None \<Rightarrow> no_update\<lparr>u_context := Some c\<rparr>)
         else no_update\<lparr>u_context := Some c\<rparr>)"

section \<open>\<^verbatim>\<open>workflow.py\<close>: handlers\<close>

text \<open>
  A handler has no \<^verbatim>\<open>try\<close> around its tool calls: an exception of a tool ends the
  node, which is the result \<open>Raised\<close>.
\<close>

definition say :: "string \<Rightarrow> update" where
  "say t = no_update\<lparr>u_messages := [AIMessage t]\<rparr>"

definition report :: "ctx \<Rightarrow> string \<Rightarrow> string \<Rightarrow> bool \<Rightarrow> pydict \<Rightarrow> string \<Rightarrow> update" where
  "report c i seg_txt ok d msg_txt =
     no_update\<lparr>u_context := Some (push_ai_response c i seg_txt ok d),
               u_messages := [AIMessage msg_txt]\<rparr>"

text \<open>\<^verbatim>\<open>slots.get("lead_ref_ou_id") or (lead_atual.get("lead_id") if lead_atual else None)\<close>.\<close>

definition lead_ref_of :: "agent_state \<Rightarrow> pyval" where
  "lead_ref_of s =
     (if slot_truthy (slots s) lead_ref_ou_id then dict_get (slots s) lead_ref_ou_id
      else case lead_atual s of None \<Rightarrow> PNone | Some l \<Rightarrow> PStr (lead_id l))"

text \<open>\<^verbatim>\<open>result.get("data", {}).get("items", [])\<close> and \<^verbatim>\<open>len\<close>.\<close>

definition items_of :: "pydict \<Rightarrow> pyval" where
  "items_of d = (case map_of d ''items'' of None \<Rightarrow> PList [] | Some v \<Rightarrow> v)"

definition py_len :: "pyval \<Rightarrow> nat outcome" where
  "py_len v =
     (case v of
        PList xs \<Rightarrow> Returned (length xs)
      | PStr t \<Rightarrow> Returned (length t)
      | PDict d \<Rightarrow> Returned (length d)
      | _ \<Rightarrow> Raised)"

definition unsupported :: "string \<Rightarrow> update" where
  "unsupported i = say (''Intent n'' @ [CHR 0xE3] @ ''o suportado: '' @ i)"

definition handle_notes :: "env \<Rightarrow> agent_state \<Rightarrow> update outcome" where
  "handle_notes e s =
     (case intent s of
        None \<Rightarrow> Raised
      | Some i \<Rightarrow>
          (let lead_ref = lead_ref_of s; c = ensure_context s;
               d = [(''lead_ref'', PStr (py_str e lead_ref))]
           in if \<not> truthy lead_ref then
                Returned (say ''Preciso de um lead para trabalhar com notas.'')
              else if i = ''nota_adicionar'' then
                (let texto = dict_get (slots s) ''texto''
                 in if \<not> truthy texto then Returned (say ''Preciso do texto da nota.'')
                    else bind_outcome (add_note_to_lead e (py_str e lead_ref) texto) (\<lambda>result.
                      case result of
                        Err m ms \<Rightarrow> Returned (report c i m False d m)
                      | Ok r \<Rightarrow>
                          Returned (report c i ''Nota registrada com sucesso.'' True d
                                      ''Nota registrada com sucesso.'')))
              else if i = ''nota_listar'' then
                bind_outcome (list_notes e (py_str e lead_ref)) (\<lambda>result.
                  case result of
                    Err m ms \<Rightarrow> Returned (report c i m False d m)
                  | Ok r \<Rightarrow>
                      bind_outcome (py_len (items_of r)) (\<lambda>n.
                        let m = ''Encontrei '' @ show_nat n @ '' notas.''
                        in Returned (report c i m True (d @ [(''total'', PInt (int n))]) m)))
              else Returned (unsupported i)))"

text \<open>\<^verbatim>\<open>re.fullmatch(r"\d{4}-\d{2}-\d{2}", s)\<close>.\<close>

definition is_iso_date :: "string \<Rightarrow> bool" where
  "is_iso_date t =
     (length t = 10 \<and> list_all is_digit (take 4 t) \<and> t ! 4 = CHR ''-'' \<and>
      list_all is_digit (take 2 (drop 5 t)) \<and> t ! 7 = CHR ''-'' \<and>
      list_all is_digit (drop 8 t))"

definition task_deadline :: "env \<Rightarrow> pyval \<Rightarrow> pydict" where
  "task_deadline e data_limite =
     (case data_limite of
        PStr raw \<Rightarrow>
          (let t = lower (strip raw)
           in if t = ''amanha'' \<or> t = ''amanh'' @ [CHR 0xE3]
                then [(''data_limite'', PStr (tomorrow e))]
              else if t = ''hoje'' then [(''data_limite'', PStr (today e))]
              else if is_iso_date t then [(''data_limite'', PStr t)]
              else [])
      | _ \<Rightarrow> [])"

definition task_payload :: "env \<Rightarrow> agent_state \<Rightarrow> pyval \<Rightarrow> pydict" where
  "task_payload e s lead_ref =
     [(lead_ref_ou_id, PStr (py_str e lead_ref)), (''titulo'', dict_get (slots s) ''titulo'')] @
     (if slot_truthy (slots s) ''tipo'' then [(''tipo'', dict_get (slots s) ''tipo'')] else []) @
     task_deadline e (dict_get (slots s) ''data_limite'')"

text \<open>\<^verbatim>\<open>str(items[0]["tarefa_id"])\<close> for a true \<^verbatim>\<open>items\<close>.\<close>

definition first_task_id :: "env \<Rightarrow> pyval \<Rightarrow> string outcome" where
  "first_task_id e items =
     (case items of
        PList (PDict d # _) \<Rightarrow>
          (case map_of d ''tarefa_id'' of None \<Rightarrow> Raised | Some v \<Rightarrow> Returned (py_str e v))
      | _ \<Rightarrow> Raised)"

text \<open>The identifier of the task to complete: the slot, or the first open task of the lead.\<close>

definition task_to_complete :: "env \<Rightarrow> agent_state \<Rightarrow> pyval outcome" where
  "task_to_complete e s =
     (let tarefa_id = dict_get (slots s) ''tarefa_id''; lead_ref = lead_ref_of s
      in if truthy tarefa_id then Returned tarefa_id
         else if \<not> truthy lead_ref then Returned tarefa_id
         else bind_outcome
                (list_tasks e [(lead_ref_ou_id, PStr (py_str e lead_ref)),
                               (''status'', PStr ''aberta'')]) (\<lambda>listar.
                case listar of
                  Err m ms \<Rightarrow> Returned tarefa_id
                | Ok r \<Rightarrow>
                    if truthy (items_of r)
                    then bind_outcome (first_task_id e (items_of r)) (\<lambda>t. Returned (PStr t))
                    else Returned tarefa_id))"

definition list_payload :: "env \<Rightarrow> agent_state \<Rightarrow> pydict" where
  "list_payload e s =
     (if truthy (lead_ref_of s) then [(lead_ref_ou_id, PStr (py_str e (lead_ref_of s)))] else []) @
     (if slot_truthy (slots s) ''status'' then [(''status'', dict_get (slots s) ''status'')] else [])"

definition found_tasks :: "ctx \<Rightarrow> string \<Rightarrow> pydict \<Rightarrow> update outcome" where
  "found_tasks c i r =
     bind_outcome (py_len (items_of r)) (\<lambda>n.
       let m = ''Encontrei '' @ show_nat n @ '' tarefas.''
       in Returned (report c i m True [(''total'', PInt (int n))] m))"

definition handle_tasks :: "env \<Rightarrow> agent_state \<Rightarrow> update outcome" where
  "handle_tasks e s =
     (case intent s of
        None \<Rightarrow> Raised
      | Some i \<Rightarrow>
          (let lead_ref = lead_ref_of s; c = ensure_context s
           in if i = ''tarefa_criar'' then
                (if \<not> truthy lead_ref then
                   Returned (say ''Preciso de um lead para criar a tarefa.'')
                 else if \<not> slot_truthy (slots s) ''titulo'' then
                   Returned (say (''Preciso do t'' @ [CHR 0xED] @ ''tulo da tarefa.''))
                 else
                   (let payload = task_payload e s lead_ref
                    in bind_outcome (create_task e payload) (\<lambda>result.
                         case result of
                           Err m ms \<Rightarrow> Returned (report c i m False payload m)
                         | Ok r \<Rightarrow>
                             Returned (report c i ''Tarefa criada'' True
                               [(''tarefa_id'', PStr (py_str e (dict_get r ''tarefa_id'')))]
                               (''Tarefa criada com sucesso. ID: '' @
                                py_str e (dict_get r ''tarefa_id''))))))
              else if i = ''tarefa_concluir'' then
                bind_outcome (task_to_complete e s) (\<lambda>tarefa_id.
                  if \<not> truthy tarefa_id then
                    Returned (say ''Preciso do ID da tarefa para concluir.'')
                  else
                    (let d = [(''tarefa_id'', PStr (py_str e tarefa_id))]
                     in bind_outcome (complete_task e (py_str e tarefa_id)) (\<lambda>result.
                          case result of
                            Err m ms \<Rightarrow> Returned (report c i m False d m)
                          | Ok r \<Rightarrow>
                              Returned (report c i (''Tarefa conclu'' @ [CHR 0xED] @ ''da'') True d
                                (''Tarefa conclu'' @ [CHR 0xED] @ ''da com sucesso.'')))))
              else if i = ''tarefa_listar'' then
                (let payload = list_payload e s
                 in bind_outcome (list_tasks e payload) (\<lambda>result.
                      case result of
                        Ok r \<Rightarrow> found_tasks c i r
                      | Err m ms \<Rightarrow>
                          if slot_truthy payload lead_ref_ou_id \<and>
                             startswith (lower m) (''lead n'' @ [CHR 0xE3] @ ''o encontrado'')
                          then bind_outcome
                                 (list_tasks e (filter (\<lambda>p. fst p = ''status'' \<and> truthy (snd p))
                                                  payload)) (\<lambda>result2.
                                 case result2 of
                                   Ok r2 \<Rightarrow> found_tasks c i r2
                                 | Err m2 ms2 \<Rightarrow> Returned (report c i m False payload m))
                          else Returned (report c i m False payload m)))
              else Returned (unsupported i)))"

text \<open>
  The two ReAct subgraphs share only the key \<^verbatim>\<open>messages\<close> with the graph: what they
  hand back is a list of new messages.
\<close>

definition leads_agent_node :: "env \<Rightarrow> agent_state \<Rightarrow> update outcome" where
  "leads_agent_node e s =
     bind_outcome (leads_agent e s) (\<lambda>ms. Returned (no_update\<lparr>u_messages := ms\<rparr>))"

definition proposals_agent_node :: "env \<Rightarrow> agent_state \<Rightarrow> update outcome" where
  "proposals_agent_node e s =
     bind_outcome (proposals_agent e s) (\<lambda>ms. Returned (no_update\<lparr>u_messages := ms\<rparr>))"

section \<open>\<^verbatim>\<open>workflow.py\<close>: response synthesizer\<close>

fun collect_codes :: "env \<Rightarrow> pyval list \<Rightarrow> string list outcome" where
  "collect_codes e [] = Returned []"
| "collect_codes e (it # its) =
     (case it of
        PDict d \<Rightarrow>
          bind_outcome (collect_codes e its) (\<lambda>cs.
            Returned (py_str e (dict_get d ''codigo'') # cs))
      | _ \<Rightarrow> Raised)"

text \<open>
  \<^verbatim>\<open>", ".join([str(it.get("codigo")) for it in items]) if items else "nenhum"\<close>: a true
  \<^verbatim>\<open>items\<close> that is not a list of dictionaries raises.
\<close>

definition status_codes :: "env \<Rightarrow> pyval \<Rightarrow> string outcome" where
  "status_codes e items =
     (if \<not> truthy items then Returned ''nenhum''
      else case items of
        PList xs \<Rightarrow> bind_outcome (collect_codes e xs) (\<lambda>cs. Returned (join '', '' cs))
      | _ \<Rightarrow> Raised)"

definition status_failure :: string where
  "status_failure =
     ''N'' @ [CHR 0xE3] @ ''o foi poss'' @ [CHR 0xED] @ ''vel listar os status de lead agora.''"

text \<open>The deterministic lookup, with its \<^verbatim>\<open>try\<close> around the whole branch.\<close>

definition lookup_status :: "env \<Rightarrow> ctx \<Rightarrow> string \<Rightarrow> update" where
  "lookup_status e c i =
     (case bind_outcome (list_lead_status e) (\<lambda>res.
             case res of
               Err m ms \<Rightarrow> Returned (report c i m False [] m)
             | Ok d \<Rightarrow>
                 bind_outcome (status_codes e (items_of d)) (\<lambda>codigos.
                   let total = dict_get d ''total'';
                       m = ''Status de lead v'' @ [CHR 0xE1] @ ''lidos ('' @ py_str e total @
                           ''): '' @ codigos @ ''.''
                   in Returned (report c i m True [(''total'', total)] m))) of
        Raised \<Rightarrow> report c i status_failure False [] status_failure
      | Returned u \<Rightarrow> u)"

definition last_human_text :: "msg list \<Rightarrow> string" where
  "last_human_text ms =
     (case find is_human (rev ms) of None \<Rightarrow> [] | Some m \<Rightarrow> extract_text_content m)"

definition segment_texts :: "bool \<Rightarrow> segment list \<Rightarrow> string list" where
  "segment_texts ok segs =
     filter (\<lambda>t. t \<noteq> []) (map (\<lambda>g. strip (seg_text g)) (filter (\<lambda>g. seg_ok g = ok) segs))"

definition bullet_lines :: "string list \<Rightarrow> string" where
  "bullet_lines ts = join [newline] (map (\<lambda>t. ''- '' @ t) ts)"

definition final_input :: "string \<Rightarrow> string list \<Rightarrow> string list \<Rightarrow> string" where
  "final_input user_text actions_txt errors_txt =
     join [newline, newline]
       ((if user_text \<noteq> [] then [''Prompt do usu'' @ [CHR 0xE1] @ ''rio: '' @ user_text] else []) @
        (if actions_txt \<noteq> []
         then [''A'' @ [CHR 0xE7, CHR 0xF5] @ ''es executadas:'' @ [newline] @ bullet_lines actions_txt]
         else []) @
        (if errors_txt \<noteq> [] then [''Falhas:'' @ [newline] @ bullet_lines errors_txt] else []))"

definition respond_final :: "env \<Rightarrow> agent_state \<Rightarrow> update outcome" where
  "respond_final e s =
     (let c = ensure_context s; ai_resps = ai_responses c
      in if intent s = Some ''listar_status_lead''
         then Returned (lookup_status e c ''listar_status_lead'')
         else
           (let user_text = last_human_text (messages s);
                actions_txt = segment_texts True ai_resps;
                errors_txt = segment_texts False ai_resps
            in if actions_txt = [] \<and> errors_txt = [] then
                 (if messages s = [] then Raised
                  else Returned (no_update\<lparr>u_context := Some c,
                         u_messages := [AIMessage (extract_text_content (last (messages s)))]\<rparr>))
               else
                 bind_outcome (finalizer_model e (final_input user_text actions_txt errors_txt))
                   (\<lambda>final_text.
                      Returned (no_update\<lparr>u_context := Some (c\<lparr>ai_responses := []\<rparr>),
                                          u_messages := [AIMessage final_text]\<rparr>))))"

section \<open>\<^verbatim>\<open>workflow.py\<close>: context consolidator\<close>

text \<open>
  The state has no key \<^verbatim>\<open>tool_result\<close>, so \<^verbatim>\<open>state.get("tool_result")\<close> is
  \<^verbatim>\<open>None\<close> and step 1 finds no reference: the consolidation starts at step 2.
\<close>

subsection \<open>Step 2: segments from the tool messages\<close>

definition fmt :: "env \<Rightarrow> pydict \<Rightarrow> string \<Rightarrow> string" where
  "fmt e d key = py_str e (dict_get d key)"

definition key_lead :: "env \<Rightarrow> pydict \<Rightarrow> string" where
  "key_lead e d = ''lead:'' @ fmt e d ''lead_id''"

definition key_draft :: "env \<Rightarrow> pydict \<Rightarrow> string" where
  "key_draft e d = ''draft:'' @ fmt e d ''proposta_id''"

definition key_item :: "env \<Rightarrow> pydict \<Rightarrow> string" where
  "key_item e d = ''item:'' @ fmt e d ''proposta_id'' @ '':'' @ fmt e d ''item_id''"

definition key_totals :: "env \<Rightarrow> pydict \<Rightarrow> string" where
  "key_totals e d =
     ''totals:'' @ fmt e d ''proposta_id'' @ '':'' @ fmt e d ''subtotal'' @ '':'' @ fmt e d ''total''"

definition seg_key :: "env \<Rightarrow> segment \<Rightarrow> string option" where
  "seg_key e g =
     (let d = seg_data g; i = seg_intent g
      in if i = ''lead_criar'' \<and> slot_truthy d ''lead_id'' then Some (key_lead e d)
         else if i = ''proposta_rascunhar'' \<and> slot_truthy d ''proposta_id'' then Some (key_draft e d)
         else if i = ''proposta_adicionar_item'' \<and> slot_truthy d ''proposta_id''
                 \<and> slot_truthy d ''item_id'' then Some (key_item e d)
         else if i = ''proposta_calcular_totais'' \<and> slot_truthy d ''proposta_id''
           then Some (key_totals e d)
         else None)"

definition existing_keys_of :: "env \<Rightarrow> ctx \<Rightarrow> string list" where
  "existing_keys_of e c = List.map_filter (seg_key e) (ai_responses c)"

text \<open>The state of the scan: the lead found so far, the slots, the context, the keys.\<close>

record scan =
  new_lead :: "lead_ctx option"
  sc_slots :: pydict
  sc_ctx :: ctx
  existing_keys :: "string list"

definition push_once :: "string \<Rightarrow> string \<Rightarrow> string \<Rightarrow> pydict \<Rightarrow> scan \<Rightarrow> scan" where
  "push_once key i t d st =
     (if key \<in> set (existing_keys st) then st
      else st\<lparr>sc_ctx := push_ai_response (sc_ctx st) i t True d,
              existing_keys := existing_keys st @ [key]\<rparr>)"

definition tool_segment :: "env \<Rightarrow> string \<Rightarrow> pydict \<Rightarrow> scan \<Rightarrow> scan" where
  "tool_segment e tool_name d st =
     (if tool_name = ''create_lead'' \<and> slot_truthy d ''lead_id'' then
        push_once (key_lead e d) ''lead_criar''
          (''Lead criado (id: '' @ fmt e d ''lead_id'' @ '')'')
          [(''lead_id'', dict_get d ''lead_id'')] st
      else if tool_name = ''draft_proposal'' \<and> slot_truthy d ''proposta_id'' then
        push_once (key_draft e d) ''proposta_rascunhar''
          (''Proposta rascunhada (id: '' @ fmt e d ''proposta_id'' @ '')'')
          [(''proposta_id'', dict_get d ''proposta_id''), (''lead_id'', dict_get d ''lead_id'')] st
      else if tool_name = ''add_proposal_item'' \<and> slot_truthy d ''proposta_id''
              \<and> slot_truthy d ''item_id'' then
        push_once (key_item e d) ''proposta_adicionar_item'' ''Item adicionado''
          [(''proposta_id'', dict_get d ''proposta_id''), (''item_id'', dict_get d ''item_id'')] st
      else if tool_name = ''calculate_proposal_totals'' \<and> dict_get d ''proposta_id'' \<noteq> PNone then
        push_once (key_totals e d) ''proposta_calcular_totais''
          (''Totais atualizados: subtotal='' @ fmt e d ''subtotal'' @ '' total='' @ fmt e d ''total'')
          [(''proposta_id'', dict_get d ''proposta_id''), (''subtotal'', dict_get d ''subtotal''),
           (''total'', dict_get d ''total''), (''desconto_pct'', dict_get d ''desconto_pct'')] st
      else st)"

text \<open>
  What a tool message parses to: a dictionary content as it is, a string content through
  \<^verbatim>\<open>ast.literal_eval\<close> after the rewrite of \<^verbatim>\<open>UUID('...')\<close>; an exception skips the
  message.
\<close>

definition parse_tool_content :: "env \<Rightarrow> pyval \<Rightarrow> pyval outcome" where
  "parse_tool_content e raw =
     (case raw of
        PDict d \<Rightarrow> Returned (PDict d)
      | PStr t \<Rightarrow> literal_eval e (re_sub_uuid e t)
      | _ \<Rightarrow> Returned PNone)"

text \<open>\<^verbatim>\<open>d = parsed.get("data") or {}\<close>; a true value that is no dictionary raises at \<^verbatim>\<open>d.get\<close>.\<close>

definition data_of :: "pydict \<Rightarrow> pydict outcome" where
  "data_of parsed =
     (let dv = dict_get parsed ''data''
      in if \<not> truthy dv then Returned []
         else case dv of PDict d \<Rightarrow> Returned d | _ \<Rightarrow> Raised)"

definition adopt_lead :: "env \<Rightarrow> pydict \<Rightarrow> scan \<Rightarrow> scan" where
  "adopt_lead e d st =
     (let lead_ref = (if slot_truthy d ''lead_id'' then dict_get d ''lead_id''
                      else dict_get d lead_ref_ou_id)
      in if truthy lead_ref \<and> new_lead st = None then
           (case get_lead_context e lead_ref of
              None \<Rightarrow> st
            | Some l \<Rightarrow>
                st\<lparr>new_lead := Some l,
                   sc_slots := dict_setdefault lead_ref_ou_id (PStr (lead_id l)) (sc_slots st)\<rparr>)
         else st)"

definition scan_message :: "env \<Rightarrow> msg \<Rightarrow> scan \<Rightarrow> scan" where
  "scan_message e m st =
     (case m of
        ToolMessage tool_name raw \<Rightarrow>
          (case bind_outcome (parse_tool_content e raw) (\<lambda>parsed.
                  case parsed of
                    PDict p \<Rightarrow>
                      bind_outcome (data_of p) (\<lambda>d.
                        Returned (tool_segment e tool_name d (adopt_lead e d st)))
                  | _ \<Rightarrow> Returned st) of
             Raised \<Rightarrow> st
           | Returned st' \<Rightarrow> st')
      | _ \<Rightarrow> st)"

text \<open>\<^verbatim>\<open>for msg in reversed(messages)\<close>.\<close>

definition scan_messages :: "env \<Rightarrow> msg list \<Rightarrow> scan \<Rightarrow> scan" where
  "scan_messages e ms st = fold (scan_message e) (rev ms) st"

subsection \<open>Steps 3 and 3.1: the lead and the queue\<close>

definition inject_and_default :: "lead_ctx \<Rightarrow> action \<Rightarrow> action" where
  "inject_and_default l act =
     (let s1 = (if a_intent act \<in> INTENTS_REQUIRING_LEAD \<and> lead_id l \<noteq> []
                   \<and> \<not> slot_truthy (a_slots act) lead_ref_ou_id
                then dict_set lead_ref_ou_id (PStr (lead_id l)) (a_slots act)
                else a_slots act);
          s2 = (if a_intent act = ''proposta_rascunhar'' \<and> ''moeda'' \<notin> fst ` set s1
                then dict_set ''moeda'' (PStr ''BRL'') s1 else s1)
      in act\<lparr>a_slots := s2\<rparr>)"

definition consolidate :: "env \<Rightarrow> agent_state \<Rightarrow> scan" where
  "consolidate e s =
     (let c = ensure_context s;
          st0 = \<lparr>new_lead = None, sc_slots = slots s, sc_ctx = c,
                 existing_keys = existing_keys_of e c\<rparr>;
          st1 = scan_messages e (messages s) st0;
          st2 = (if new_lead st1 = None \<and> slot_truthy (sc_slots st1) lead_ref_ou_id
                 then st1\<lparr>new_lead := get_lead_context e (dict_get (sc_slots st1) lead_ref_ou_id)\<rparr>
                 else st1)
      in case new_lead st2 of
           None \<Rightarrow> st2
         | Some l \<Rightarrow>
             st2\<lparr>sc_ctx := (sc_ctx st2)\<lparr>pending_actions :=
                     map (inject_and_default l) (pending_actions (sc_ctx st2))\<rparr>\<rparr>)"

subsection \<open>Step 4: the supplementary planner call\<close>

definition replan_hint :: "string \<Rightarrow> string" where
  "replan_hint lid =
     ''Contexto de replanejamento: o lead j'' @ [CHR 0xE1] @ '' foi criado (lead_id='' @ lid @
     ''). Extraia as demais a'' @ [CHR 0xE7, CHR 0xF5] @
     ''es pedidas originalmente (ex.: nota, tarefa, proposta), mantendo os slots citados. N'' @
     [CHR 0xE3] @ ''o inclua a cria'' @ [CHR 0xE7, CHR 0xE3] @ ''o do lead novamente.''"

definition planner_msgs :: "agent_state \<Rightarrow> lead_ctx option \<Rightarrow> msg list" where
  "planner_msgs s lead =
     (if has_lead lead then [HumanMessage (replan_hint (lead_id (the lead)))] else []) @
     (if last_human_text (messages s) \<noteq> [] then [HumanMessage (last_human_text (messages s))]
      else messages s)"

definition replan_one :: "env \<Rightarrow> string option \<Rightarrow> lead_ctx option \<Rightarrow> plan_action
    \<Rightarrow> action option outcome" where
  "replan_one e current lead a =
     bind_outcome (slots_strings_to_dict e (pa_slots a)) (\<lambda>slots_a.
       Returned (if skip_planned current lead (pa_intent a) then None
                 else Some \<lparr>a_intent = pa_intent a,
                            a_slots = default_and_inject (pa_intent a) lead slots_a\<rparr>))"

definition executed_intents :: "ctx \<Rightarrow> string set" where
  "executed_intents c = {i \<in> seg_intent ` set (ai_responses c). i \<noteq> []}"

fun merge_replan :: "string set \<Rightarrow> dedup_key list \<Rightarrow> action list \<Rightarrow> action list
    \<Rightarrow> action list \<times> bool" where
  "merge_replan ex keys pending [] = (pending, False)"
| "merge_replan ex keys pending (act # acts) =
     (if a_intent act \<in> ex then merge_replan ex keys pending acts
      else if \<not> hashable_action act then (pending, True)
      else if key_in (k act) keys then merge_replan ex keys pending acts
      else merge_replan ex (keys @ [k act]) (pending @ [act]) acts)"

text \<open>
  The guard of step 4, and the step itself under \<^verbatim>\<open>try\<close>: when the planner, the
  normalization or the merge raises, nothing of step 4 reaches the context.
\<close>

definition replan_guard :: "ctx \<Rightarrow> bool" where
  "replan_guard c = (pending_actions c = [] \<and> \<not> replanned c)"

definition replan :: "env \<Rightarrow> agent_state \<Rightarrow> lead_ctx option \<Rightarrow> ctx \<Rightarrow> ctx" where
  "replan e s nl c =
     (let lead = (case nl of Some l \<Rightarrow> Some l | None \<Rightarrow> lead_atual s)
      in case bind_outcome (plan_llm e (planner_msgs s lead))
                (plan_loop (replan_one e (intent s) lead)) of
           Raised \<Rightarrow> c
         | Returned new_actions \<Rightarrow>
             (case merge_replan (executed_intents c) [] [] new_actions of
                (pending_now, raised) \<Rightarrow>
                  if raised then c
                  else c\<lparr>pending_actions := pending_now, replanned := True\<rparr>))"

definition replan_called :: "env \<Rightarrow> agent_state \<Rightarrow> bool" where
  "replan_called e s = replan_guard (sc_ctx (consolidate e s))"

definition update_context :: "env \<Rightarrow> agent_state \<Rightarrow> update" where
  "update_context e s =
     (let st = consolidate e s;
          c = (if replan_guard (sc_ctx st) then replan e s (new_lead st) (sc_ctx st)
               else sc_ctx st)
      in no_update\<lparr>u_slots := Some (sc_slots st), u_context := Some c,
                   u_lead_atual := new_lead st\<rparr>)"

section \<open>\<^verbatim>\<open>workflow.py\<close>: the graph\<close>

text \<open>
  The nodes of the graph and its edges. A configuration is the node that runs next and
  the state. One step runs one node for some behaviour \<open>e\<close> of the collaborators,
  applies the update and follows the edge; a node that raises has no step. A step is
  labelled with what it did of interest: it ran the automatic lead resolution, or its
  consolidation pass called the planner once more.
\<close>

datatype node =
    Parse | Prepare | Router | Resolve | Leads | Notes | Tasks | Proposals
  | Update | Execute | Respond | End

datatype event = Resolution | Replan

definition node_of_route :: "string \<Rightarrow> node" where
  "node_of_route r =
     (if r = ''resolve_lead'' then Resolve
      else if r = ''handle_leads'' then Leads
      else if r = ''handle_notes'' then Notes
      else if r = ''handle_tasks'' then Tasks
      else if r = ''handle_proposals'' then Proposals
      else Respond)"

definition node_of_pending :: "string \<Rightarrow> node" where
  "node_of_pending r = (if r = ''execute'' then Execute else Respond)"

inductive step :: "node \<times> agent_state \<Rightarrow> event list \<Rightarrow> node \<times> agent_state \<Rightarrow> bool" where
  step_parse:
    "parse_and_classify e s = Returned u \<Longrightarrow> step (Parse, s) [] (Prepare, apply_update u s)"
| step_prepare:
    "step (Prepare, s) [] (Router, apply_update (prepare_plan e s) s)"
| step_router:
    "s' = apply_update (router_node s) s \<Longrightarrow>
     step (Router, s) [] (node_of_route (route_intent s'), s')"
| step_resolve:
    "step (Resolve, s) [Resolution] (Router, apply_update (resolve_lead e s) s)"
| step_leads:
    "leads_agent_node e s = Returned u \<Longrightarrow> step (Leads, s) [] (Update, apply_update u s)"
| step_notes:
    "handle_notes e s = Returned u \<Longrightarrow> step (Notes, s) [] (Update, apply_update u s)"
| step_tasks:
    "handle_tasks e s = Returned u \<Longrightarrow> step (Tasks, s) [] (Update, apply_update u s)"
| step_proposals:
    "proposals_agent_node e s = Returned u \<Longrightarrow>
     step (Proposals, s) [] (Update, apply_update u s)"
| step_update:
    "s' = apply_update (update_context e s) s \<Longrightarrow>
     step (Update, s) (if replan_called e s then [Replan] else [])
          (node_of_pending (has_pending s'), s')"
| step_execute:
    "step (Execute, s) [] (Router, apply_update (execute_pending s) s)"
| step_respond:
    "respond_final e s = Returned u \<Longrightarrow> step (Respond, s) [] (End, apply_update u s)"

text \<open>A run: finitely many steps, with the events in their order.\<close>

inductive run :: "node \<times> agent_state \<Rightarrow> event list \<Rightarrow> node \<times> agent_state \<Rightarrow> bool" where
  run_refl: "run c [] c"
| run_step: "run c es c' \<Longrightarrow> step c' es' c'' \<Longrightarrow> run c (es @ es') c''"

section \<open>Concrete collaborators and states for examples\<close>

text \<open>A collaborator set in which every call raises, to be overridden field by field.\<close>

definition silent_env :: env where
  "silent_env =
     \<lparr>db_conn = False,
      db_by_id = (\<lambda>r. Raised), db_by_email = (\<lambda>r. Raised), db_by_phone = (\<lambda>r. Raised),
      db_like = (\<lambda>r. Raised), db_lead = (\<lambda>r. Raised),
      add_note_to_lead = (\<lambda>r t. Raised), list_notes = (\<lambda>r. Raised),
      create_task = (\<lambda>p. Raised), complete_task = (\<lambda>t. Raised), list_tasks = (\<lambda>p. Raised),
      list_lead_status = Raised,
      parser_llm = (\<lambda>ms. Raised), plan_llm = (\<lambda>ms. Raised), finalizer_model = (\<lambda>t. Raised),
      leads_agent = (\<lambda>s. Raised), proposals_agent = (\<lambda>s. Raised),
      json_loads = (\<lambda>t. Raised), json_dumps = (\<lambda>v. Raised), literal_eval = (\<lambda>t. Raised),
      re_search_actions = (\<lambda>t. None), re_sub_keys = (\<lambda>t. t), re_sub_uuid = (\<lambda>t. t),
      repr_container = (\<lambda>v. []), today = ''2025-01-01'', tomorrow = ''2025-01-02''\<rparr>"

definition blank_state :: agent_state where
  "blank_state =
     \<lparr>messages = [], intent = None, slots = [], lead_atual = None, errors = [],
      s_context = empty_ctx\<rparr>"

definition demo_lead :: lead_ctx where
  "demo_lead = \<lparr>lead_id = ''L-1'', nome = Some ''Maria'', email = None, empresa = Some ''Acme''\<rparr>"

definition demo_lead2 :: lead_ctx where
  "demo_lead2 = \<lparr>lead_id = ''L-2'', nome = Some ''Mario'', email = None, empresa = Some ''Acme''\<rparr>"

definition note_action :: action where
  "note_action = \<lparr>a_intent = ''nota_adicionar'', a_slots = [(''texto'', PStr ''follow-up'')]\<rparr>"

definition task_action :: action where
  "task_action = \<lparr>a_intent = ''tarefa_criar'', a_slots = [(''titulo'', PStr ''ligar'')]\<rparr>"

definition create_action :: action where
  "create_action = \<lparr>a_intent = ''lead_criar'', a_slots = [(''nome'', PStr ''Maria'')]\<rparr>"

text \<open>A state with a resolved lead and two queued actions.\<close>

definition queued_state :: agent_state where
  "queued_state =
     blank_state\<lparr>lead_atual := Some demo_lead,
                  s_context := empty_ctx\<lparr>pending_actions := [note_action, task_action]\<rparr>\<rparr>"

text \<open>
  A turn whose classified intent needs a lead, with no lead known, and a planner that
  answers with a task first and the creation of the lead second.
\<close>

definition promo_state :: agent_state where
  "promo_state =
     blank_state\<lparr>messages := [HumanMessage ''anote follow-up para a Maria, cadastre e ligue''],
                  intent := Some ''nota_adicionar'',
                  slots := [(''texto'', PStr ''follow-up'')]\<rparr>"

definition promo_env :: env where
  "promo_env =
     silent_env\<lparr>plan_llm := (\<lambda>ms. Returned
        [\<lparr>pa_intent = ''tarefa_criar'', pa_slots = [PStr ''titulo=ligar'']\<rparr>,
         \<lparr>pa_intent = ''lead_criar'', pa_slots = [PStr ''nome=Maria'']\<rparr>])\<rparr>"

chapter \<open>Lemmas and theorems\<close>

section \<open>Reference extraction: the patterns find exactly the shapes\<close>

lemma match_tmpl_iff:
  "match_tmpl ks cs = Some r \<longleftrightarrow> (\<exists>u. cs = u @ r \<and> list_all2 in_cls ks u)"
proof (induction ks cs rule: match_tmpl.induct)
  case (1 cs)
  then show ?case by auto
next
  case (2 q ks)
  then show ?case by (auto simp: list_all2_Cons1)
next
  case (3 q ks c cs)
  then show ?case by (auto simp: list_all2_Cons1 Cons_eq_append_conv)
qed

lemma is_hex_word: "is_hex c \<Longrightarrow> is_word c"
  by (auto simp: is_hex_def is_word_def is_alpha_def is_digit_def)

lemma uuid_template_length: "length uuid_template = 36"
  by (simp add: uuid_template_def)

lemma uuid_shaped_length: "uuid_shaped u \<Longrightarrow> length u = 36"
  by (metis list_all2_lengthD uuid_shaped_def uuid_template_length)

lemma uuid_shaped_ends:
  assumes "uuid_shaped u"
  shows "u \<noteq> []" and "is_word (hd u)" and "is_word (last u)"
proof -
  from assms have len: "length u = 36" by (rule uuid_shaped_length)
  then show ne: "u \<noteq> []" by auto
  have all: "\<And>i. i < 36 \<Longrightarrow> in_cls (uuid_template ! i) (u ! i)"
    using assms len by (simp add: uuid_shaped_def list_all2_conv_all_nth)
  have "uuid_template ! 0 = Hex" and "uuid_template ! 35 = Hex"
    by (simp_all add: uuid_template_def nth_append)
  with all[of 0] all[of 35] have "is_hex (u ! 0)" "is_hex (u ! 35)" by auto
  moreover have "hd u = u ! 0" using ne by (simp add: hd_conv_nth)
  moreover have "last u = u ! 35" using ne len by (simp add: last_conv_nth)
  ultimately show "is_word (hd u)" and "is_word (last u)" by (auto intro: is_hex_word)
qed

lemma uuid_match_at_sound:
  assumes "uuid_match_at prev cs = Some m"
  shows "\<exists>ss. cs = m @ ss \<and> uuid_shaped m \<and> \<not> opt_word prev \<and> (ss = [] \<or> \<not> is_word (hd ss))"
proof -
  from assms obtain r where wb1: "word_boundary prev (first_char cs)"
    and mt: "match_tmpl uuid_template cs = Some r"
    and m: "m = take (length cs - length r) cs"
    and wb2: "word_boundary (last_char prev m) (first_char r)"
    by (auto simp: uuid_match_at_def Let_def split: if_splits option.splits)
  from mt obtain u where cs: "cs = u @ r" and sh: "uuid_shaped u"
    by (auto simp: match_tmpl_iff uuid_shaped_def)
  from cs m have mu: "m = u" by simp
  note e = uuid_shaped_ends[OF sh]
  from e cs have "first_char cs = Some (hd u)"
    by (cases u) (auto simp: first_char_def)
  with wb1 e have p: "\<not> opt_word prev" by (simp add: word_boundary_def opt_word_def)
  from e mu have "last_char prev m = Some (last u)" by (simp add: last_char_def)
  with wb2 e have "\<not> opt_word (first_char r)" by (simp add: word_boundary_def opt_word_def)
  then have "r = [] \<or> \<not> is_word (hd r)"
    by (cases r) (auto simp: first_char_def opt_word_def)
  with cs mu sh p show ?thesis by auto
qed

lemma uuid_match_at_complete:
  assumes "uuid_shaped u" and "\<not> opt_word prev" and "ss = [] \<or> \<not> is_word (hd ss)"
  shows "uuid_match_at prev (u @ ss) = Some u"
proof -
  note e = uuid_shaped_ends[OF assms(1)]
  have mt: "match_tmpl uuid_template (u @ ss) = Some ss"
    using assms(1) by (auto simp: match_tmpl_iff uuid_shaped_def)
  from e have fc: "first_char (u @ ss) = Some (hd u)"
    by (cases u) (auto simp: first_char_def)
  have lc: "last_char prev u = Some (last u)" using e by (simp add: last_char_def)
  have fr: "\<not> opt_word (first_char ss)"
    using assms(3) by (cases ss) (auto simp: first_char_def opt_word_def)
  show ?thesis
    using mt fc lc fr e assms(2)
    by (simp add: uuid_match_at_def word_boundary_def opt_word_def)
qed

lemma re_search_uuid_sound:
  "re_search_uuid prev cs = Some m \<Longrightarrow>
   \<exists>ps ss. cs = ps @ m @ ss \<and> uuid_shaped m \<and>
     (if ps = [] then \<not> opt_word prev else \<not> is_word (last ps)) \<and>
     (ss = [] \<or> \<not> is_word (hd ss))"
proof (induction prev cs rule: re_search_uuid.induct)
  case (1 prev)
  from uuid_match_at_sound[of prev "[]" m] 1 show ?case by auto
next
  case (2 prev c cs)
  show ?case
  proof (cases "uuid_match_at prev (c # cs)")
    case (Some m')
    with 2 have "m' = m" by simp
    with Some uuid_match_at_sound[of prev "c # cs" m] obtain ss where
      "c # cs = [] @ m @ ss" "uuid_shaped m" "\<not> opt_word prev" "ss = [] \<or> \<not> is_word (hd ss)"
      by auto
    then show ?thesis by (intro exI[of _ "[]"] exI[of _ ss]) simp
  next
    case None
    with 2 have "re_search_uuid (Some c) cs = Some m" by simp
    from 2(1)[OF None this] obtain ps ss where
      h: "cs = ps @ m @ ss" "uuid_shaped m"
         "if ps = [] then \<not> opt_word (Some c) else \<not> is_word (last ps)"
         "ss = [] \<or> \<not> is_word (hd ss)" by blast
    then show ?thesis
      by (intro exI[of _ "c # ps"] exI[of _ ss]) (auto simp: opt_word_def split: if_splits)
  qed
qed

lemma re_search_uuid_complete:
  "uuid_shaped u \<Longrightarrow> ss = [] \<or> \<not> is_word (hd ss) \<Longrightarrow>
   (if ps = [] then \<not> opt_word prev else \<not> is_word (last ps)) \<Longrightarrow>
   re_search_uuid prev (ps @ u @ ss) \<noteq> None"
proof (induction ps arbitrary: prev)
  case Nil
  then have m: "uuid_match_at prev (u @ ss) = Some u"
    by (simp add: uuid_match_at_complete)
  from uuid_shaped_ends(1)[OF Nil(1)] obtain a v where "u = a # v" by (cases u) auto
  with m show ?case by simp
next
  case (Cons p ps)
  have "re_search_uuid (Some p) (ps @ u @ ss) \<noteq> None"
    using Cons.prems by (intro Cons.IH) (auto simp: opt_word_def split: if_splits)
  then show ?case by (auto split: option.splits)
qed

lemma re_search_uuid_occurs:
  "re_search_uuid None text \<noteq> None \<longleftrightarrow> uuid_occurs text"
proof
  assume "re_search_uuid None text \<noteq> None"
  then obtain m where "re_search_uuid None text = Some m" by auto
  from re_search_uuid_sound[OF this] show "uuid_occurs text"
    unfolding uuid_occurs_def by (metis (full_types))
next
  assume "uuid_occurs text"
  then obtain ps u ss where h: "text = ps @ u @ ss" "uuid_shaped u"
    "ps = [] \<or> \<not> is_word (last ps)" "ss = [] \<or> \<not> is_word (hd ss)"
    unfolding uuid_occurs_def by blast
  have "re_search_uuid None (ps @ u @ ss) \<noteq> None"
    using h by (intro re_search_uuid_complete) (auto simp: opt_word_def)
  with h show "re_search_uuid None text \<noteq> None" by simp
qed

lemma take_takeWhile_all:
  assumes "q \<le> length (takeWhile P xs)"
  shows "list_all P (take q xs)"
proof -
  have "take q xs = take q (takeWhile P xs @ dropWhile P xs)" by simp
  also have "\<dots> = take q (takeWhile P xs)" using assms by (simp del: takeWhile_dropWhile_id)
  finally have "set (take q xs) \<subseteq> set (takeWhile P xs)" by (simp add: set_take_subset)
  then show ?thesis by (auto simp: list_all_iff dest: set_takeWhileD)
qed

lemma tld_at_Some:
  assumes "tld_at cs = Some t"
  shows "\<exists>w. take t cs = CHR ''.'' # w \<and> 2 \<le> length w \<and> list_all is_alpha w \<and> t = Suc (length w)"
proof -
  from assms obtain cs' where cs: "cs = CHR ''.'' # cs'"
    and len: "2 \<le> length (takeWhile is_alpha cs')"
    and t: "t = Suc (length (takeWhile is_alpha cs'))"
    by (auto simp: tld_at_def split: list.splits if_splits)
  let ?w = "takeWhile is_alpha cs'"
  have "take (length ?w) cs' = ?w"
    by (metis append_eq_conv_conj takeWhile_dropWhile_id)
  moreover have "list_all is_alpha ?w"
    by (simp add: list_all_iff) (meson set_takeWhileD)
  ultimately show ?thesis using cs len t by auto
qed

lemma tld_at_complete:
  assumes "2 \<le> length t" and "list_all is_alpha t"
  shows "tld_at (CHR ''.'' # t @ ss) \<noteq> None"
proof -
  have "takeWhile is_alpha (t @ ss) = t @ takeWhile is_alpha ss"
    using assms(2) by (simp add: takeWhile_append2 list_all_iff)
  with assms(1) show ?thesis by (simp add: tld_at_def)
qed

lemma domain_tld_None:
  "domain_tld r n = None \<longleftrightarrow> (\<forall>q. 1 \<le> q \<and> q \<le> n \<longrightarrow> tld_at (drop q r) = None)"
proof (induction n)
  case 0
  then show ?case by simp
next
  case (Suc n)
  show ?case
  proof (cases "tld_at (drop (Suc n) r)")
    case None
    have "(\<forall>q. 1 \<le> q \<and> q \<le> Suc n \<longrightarrow> tld_at (drop q r) = None) \<longleftrightarrow>
          (\<forall>q. 1 \<le> q \<and> q \<le> n \<longrightarrow> tld_at (drop q r) = None)"
      using None by (metis le_Suc_eq)
    with None Suc show ?thesis by simp
  next
    case (Some t)
    then show ?thesis by (auto intro: exI[of _ "Suc n"])
  qed
qed

lemma domain_tld_Some:
  "domain_tld r n = Some j \<Longrightarrow>
   \<exists>q t. 1 \<le> q \<and> q \<le> n \<and> tld_at (drop q r) = Some t \<and> j = q + t"
proof (induction n)
  case 0
  then show ?case by simp
next
  case (Suc n)
  show ?case
  proof (cases "tld_at (drop (Suc n) r)")
    case None
    with Suc.prems have "domain_tld r n = Some j" by simp
    from Suc.IH[OF this] show ?thesis by (metis le_Suc_eq)
  next
    case (Some t)
    with Suc.prems have "j = Suc n + t" by simp
    with Some show ?thesis by (intro exI[of _ "Suc n"] exI[of _ t]) simp
  qed
qed

lemma not_local_at: "\<not> is_local CHR ''@''"
  by (simp add: is_local_def is_alpha_def is_digit_def)

lemma alpha_is_dom: "is_alpha c \<Longrightarrow> is_dom c"
  by (simp add: is_dom_def)

lemma dot_is_dom: "is_dom CHR ''.''"
  by (simp add: is_dom_def)


lemma email_match_at_sound:
  assumes "email_match_at cs = Some m"
  shows "email_shaped m \<and> prefix m cs"
proof -
  let ?l = "takeWhile is_local cs"
  from assms obtain r2 n where l: "?l \<noteq> []"
    and r: "dropWhile is_local cs = CHR ''@'' # r2"
    and dt: "domain_tld r2 (length (takeWhile is_dom r2)) = Some n"
    and m: "m = ?l @ CHR ''@'' # take n r2"
    by (auto simp: email_match_at_def Let_def split: if_splits list.splits option.splits)
  have cs: "?l @ CHR ''@'' # r2 = cs"
    using r by (metis takeWhile_dropWhile_id)
  from domain_tld_Some[OF dt] obtain q t where q: "1 \<le> q" "q \<le> length (takeWhile is_dom r2)"
    and tl: "tld_at (drop q r2) = Some t" and n: "n = q + t" by blast
  from tld_at_Some[OF tl] obtain w where w: "take t (drop q r2) = CHR ''.'' # w"
    "2 \<le> length w" "list_all is_alpha w" by blast
  let ?d = "take q r2"
  have dall: "list_all is_dom ?d"
    using q(2) by (rule take_takeWhile_all)
  have "length (takeWhile is_dom r2) \<le> length r2" by (rule length_takeWhile_le)
  with q have dne: "?d \<noteq> []" by (cases r2) auto
  have "take n r2 = ?d @ CHR ''.'' # w"
    using n w(1) by (simp add: take_add)
  with m have "m = ?l @ [CHR ''@''] @ ?d @ [CHR ''.''] @ w" by simp
  moreover have "list_all is_local ?l"
    by (simp add: list_all_iff) (meson set_takeWhileD)
  ultimately have "email_shaped m"
    unfolding email_shaped_def using l dall dne w(2,3) by blast
  moreover have "prefix m cs"
  proof -
    have "prefix (take n r2) r2" by (rule take_is_prefix)
    then have "prefix (?l @ CHR ''@'' # take n r2) (?l @ CHR ''@'' # r2)" by simp
    with cs show ?thesis unfolding m by simp
  qed
  ultimately show ?thesis by simp
qed


lemma takeWhile_stop: "list_all P l \<Longrightarrow> \<not> P a \<Longrightarrow> takeWhile P (l @ a # r) = l"
  by (induction l) auto

lemma dropWhile_stop: "list_all P l \<Longrightarrow> \<not> P a \<Longrightarrow> dropWhile P (l @ a # r) = a # r"
  by (induction l) auto

lemma takeWhile_all_app: "list_all P d \<Longrightarrow> takeWhile P (d @ r) = d @ takeWhile P r"
  by (induction d) auto

lemma email_match_at_complete:
  assumes "email_shaped e"
  shows "email_match_at (e @ ss) \<noteq> None"
proof -
  from assms obtain l d t where e: "e = l @ [CHR ''@''] @ d @ [CHR ''.''] @ t"
    and l: "l \<noteq> []" "list_all is_local l" and d: "d \<noteq> []" "list_all is_dom d"
    and t: "2 \<le> length t" "list_all is_alpha t"
    unfolding email_shaped_def by blast
  define r2 where "r2 = d @ CHR ''.'' # t @ ss"
  have es: "e @ ss = l @ CHR ''@'' # r2" using e by (simp add: r2_def)
  have tw: "takeWhile is_local (l @ CHR ''@'' # r2) = l"
    using l(2) not_local_at by (rule takeWhile_stop)
  have dw: "dropWhile is_local (l @ CHR ''@'' # r2) = CHR ''@'' # r2"
    using l(2) not_local_at by (rule dropWhile_stop)
  have "takeWhile is_dom r2 = d @ takeWhile is_dom (CHR ''.'' # t @ ss)"
    unfolding r2_def using d(2) by (rule takeWhile_all_app)
  then have len: "length d \<le> length (takeWhile is_dom r2)" by simp
  have "drop (length d) r2 = CHR ''.'' # t @ ss" by (simp add: r2_def)
  then have tl: "tld_at (drop (length d) r2) \<noteq> None"
    using tld_at_complete[OF t, of ss] by simp
  have d1: "1 \<le> length d" using d(1) by (cases d) auto
  have "domain_tld r2 (length (takeWhile is_dom r2)) \<noteq> None"
  proof
    assume "domain_tld r2 (length (takeWhile is_dom r2)) = None"
    then have "\<forall>q. 1 \<le> q \<and> q \<le> length (takeWhile is_dom r2) \<longrightarrow> tld_at (drop q r2) = None"
      by (simp only: domain_tld_None)
    from this[rule_format, of "length d"] d1 len tl show False by simp
  qed
  then obtain n where "domain_tld r2 (length (takeWhile is_dom r2)) = Some n" by blast
  then show ?thesis
    unfolding es email_match_at_def by (simp add: tw dw l(1))
qed
lemma re_search_email_sound:
  "re_search_email cs = Some m \<Longrightarrow> email_shaped m \<and> sublist m cs"
proof (induction cs)
  case Nil
  then show ?case using email_match_at_sound[of "[]" m] by auto
next
  case (Cons c cs)
  show ?case
  proof (cases "email_match_at (c # cs)")
    case None
    with Cons show ?thesis by (auto simp: sublist_Cons_right)
  next
    case (Some m')
    with Cons.prems have "m' = m" by simp
    with Some email_match_at_sound[of "c # cs" m] show ?thesis
      by (auto intro: prefix_imp_sublist)
  qed
qed

lemma re_search_email_complete:
  "email_shaped e \<Longrightarrow> re_search_email (ps @ e @ ss) \<noteq> None"
proof (induction ps)
  case Nil
  from email_match_at_complete[OF Nil, of ss] have m: "email_match_at (e @ ss) \<noteq> None" .
  then show ?case by (cases "e @ ss") auto
next
  case (Cons p ps)
  then show ?case by (auto split: option.splits)
qed

lemma re_search_email_occurs:
  "re_search_email text \<noteq> None \<longleftrightarrow> email_occurs text"
proof
  assume "re_search_email text \<noteq> None"
  then show "email_occurs text"
    unfolding email_occurs_def using re_search_email_sound by blast
next
  assume "email_occurs text"
  then obtain e ps ss where "email_shaped e" "text = ps @ e @ ss"
    unfolding email_occurs_def sublist_def by blast
  then show "re_search_email text \<noteq> None"
    by (simp add: re_search_email_complete)
qed

lemma uuid_occurs_sublist:
  assumes "uuid_occurs text"
  shows "\<exists>u. uuid_shaped u \<and> sublist u text"
proof -
  from assms obtain ps u ss where "text = ps @ u @ ss" and u: "uuid_shaped u"
    unfolding uuid_occurs_def by blast
  then have "sublist u text" unfolding sublist_def by blast
  with u show ?thesis by blast
qed

lemma uuid_shaped_has_dash: "uuid_shaped u \<Longrightarrow> CHR ''-'' \<in> set u"
proof -
  assume sh: "uuid_shaped u"
  then have len: "length u = 36" by (rule uuid_shaped_length)
  have "uuid_template ! 8 = Dash" by (simp add: uuid_template_def nth_append)
  moreover have "in_cls (uuid_template ! 8) (u ! 8)"
    using sh len by (simp add: uuid_shaped_def list_all2_conv_all_nth)
  ultimately have "u ! 8 = CHR ''-''" by simp
  moreover have "u ! 8 \<in> set u" using len by (intro nth_mem) simp
  ultimately show ?thesis by simp
qed

lemma email_shaped_has_at:
  assumes "email_shaped e"
  shows "CHR ''@'' \<in> set e"
proof -
  from assms obtain l d t where "e = l @ [CHR ''@''] @ d @ [CHR ''.''] @ t"
    unfolding email_shaped_def by blast
  then show ?thesis by simp
qed

lemma digits_only: "set (filter is_digit text) \<subseteq> Collect is_digit"
  by auto

lemma short_text_no_uuid:
  assumes "length text < 36"
  shows "\<not> (\<exists>u. uuid_shaped u \<and> sublist u text)"
proof
  assume "\<exists>u. uuid_shaped u \<and> sublist u text"
  then obtain u where u: "uuid_shaped u" "sublist u text" by blast
  from uuid_shaped_length[OF u(1)] sublist_length_le[OF u(2)] assms show False by simp
qed

lemma no_at_no_email:
  assumes "CHR ''@'' \<notin> set text"
  shows "\<not> (\<exists>e. email_shaped e \<and> sublist e text)"
proof
  assume "\<exists>e. email_shaped e \<and> sublist e text"
  then obtain e where e: "email_shaped e" "sublist e text" by blast
  from email_shaped_has_at[OF e(1)] set_mono_sublist[OF e(2)] assms show False by blast
qed

lemma extract_ref_cases:
  "extract_ref_from_text text =
     (case re_search_uuid None text of
        Some m \<Rightarrow> Some m
      | None \<Rightarrow>
          (case re_search_email text of
             Some m \<Rightarrow> Some m
           | None \<Rightarrow>
               (if 8 \<le> length (filter is_digit text) then Some (filter is_digit text)
                else None)))"
proof (cases "text = []")
  case True
  have "uuid_match_at None [] = None"
    by (simp add: uuid_match_at_def uuid_template_def word_boundary_def first_char_def opt_word_def)
  moreover have "email_match_at [] = None" by (simp add: email_match_at_def)
  ultimately show ?thesis using True by (simp add: extract_ref_from_text_def)
next
  case False
  then show ?thesis by (simp add: extract_ref_from_text_def Let_def split: option.splits)
qed

text \<open>
  Claim C10. For every text that holds no identifier-shaped and no e-mail-shaped
  substring, \<open>extract_ref_from_text\<close> returns all the digits of the whole text, in
  their order and with every other character removed, if and only if there are at least
  eight of them, wherever in the text they stand; otherwise it returns nothing.
\<close>

theorem extract_ref_digit_fallback:
  assumes "\<not> (\<exists>u. uuid_shaped u \<and> sublist u text)"
    and "\<not> (\<exists>e. email_shaped e \<and> sublist e text)"
  shows "extract_ref_from_text text =
           (if 8 \<le> length (filter is_digit text) then Some (filter is_digit text) else None)"
proof -
  from assms(1) have "\<not> uuid_occurs text" using uuid_occurs_sublist by blast
  then have u: "re_search_uuid None text = None" using re_search_uuid_occurs by blast
  from assms(2) have "\<not> email_occurs text" by (simp add: email_occurs_def)
  then have e: "re_search_email text = None" using re_search_email_occurs by blast
  show ?thesis by (simp add: extract_ref_cases u e)
qed

theorem extract_ref_digit_fallback_witness:
  "extract_ref_from_text ''sala 12, ramal 34, vaga 5678'' = Some ''12345678'' \<and>
   extract_ref_from_text ''sala 12, ramal 34, vaga 567'' = None"
proof -
  have a: "\<not> (\<exists>u. uuid_shaped u \<and> sublist u ''sala 12, ramal 34, vaga 5678'')"
    by (rule short_text_no_uuid) simp
  have b: "\<not> (\<exists>e. email_shaped e \<and> sublist e ''sala 12, ramal 34, vaga 5678'')"
    by (rule no_at_no_email) simp
  have c: "\<not> (\<exists>u. uuid_shaped u \<and> sublist u ''sala 12, ramal 34, vaga 567'')"
    by (rule short_text_no_uuid) simp
  have d: "\<not> (\<exists>e. email_shaped e \<and> sublist e ''sala 12, ramal 34, vaga 567'')"
    by (rule no_at_no_email) simp
  show ?thesis
    using extract_ref_digit_fallback[OF a b] extract_ref_digit_fallback[OF c d]
    by (simp add: is_digit_def)
qed

text \<open>
  Claim C8, as the code has it. The identifier pattern stands between two word
  boundaries, so an identifier glued to a letter, a digit or an underscore is not found.
  When the text holds an identifier that is not glued to a word character, the result is
  an identifier-shaped substring; otherwise, when it holds an e-mail-shaped substring, the
  result is an e-mail-shaped substring; otherwise the result is the digits of the text
  when there are at least eight, and nothing when there are fewer. In particular a text
  that holds an e-mail never yields its telephone digits.
\<close>

theorem extract_ref_priority:
  "(uuid_occurs text \<longrightarrow>
      (\<exists>u. extract_ref_from_text text = Some u \<and> uuid_shaped u \<and> sublist u text)) \<and>
   (\<not> uuid_occurs text \<and> email_occurs text \<longrightarrow>
      (\<exists>e. extract_ref_from_text text = Some e \<and> email_shaped e \<and> sublist e text)) \<and>
   (\<not> uuid_occurs text \<and> \<not> email_occurs text \<longrightarrow>
      extract_ref_from_text text =
        (if 8 \<le> length (filter is_digit text) then Some (filter is_digit text) else None)) \<and>
   (email_occurs text \<longrightarrow> extract_ref_from_text text \<noteq> Some (filter is_digit text))"
proof (intro conjI impI)
  assume occ: "uuid_occurs text"
  then obtain m where m: "re_search_uuid None text = Some m"
    using re_search_uuid_occurs by blast
  from re_search_uuid_sound[OF m] have "uuid_shaped m \<and> sublist m text"
    unfolding sublist_def by blast
  with m show "\<exists>u. extract_ref_from_text text = Some u \<and> uuid_shaped u \<and> sublist u text"
    by (simp add: extract_ref_cases)
next
  assume h: "\<not> uuid_occurs text \<and> email_occurs text"
  then have u: "re_search_uuid None text = None" using re_search_uuid_occurs by blast
  from h obtain m where m: "re_search_email text = Some m"
    using re_search_email_occurs by blast
  from re_search_email_sound[OF m] u m
  show "\<exists>e. extract_ref_from_text text = Some e \<and> email_shaped e \<and> sublist e text"
    by (simp add: extract_ref_cases)
next
  assume h: "\<not> uuid_occurs text \<and> \<not> email_occurs text"
  then have "re_search_uuid None text = None" "re_search_email text = None"
    using re_search_uuid_occurs re_search_email_occurs by blast+
  then show "extract_ref_from_text text =
      (if 8 \<le> length (filter is_digit text) then Some (filter is_digit text) else None)"
    by (simp add: extract_ref_cases)
next
  assume occ: "email_occurs text"
  then obtain m where m: "re_search_email text = Some m"
    using re_search_email_occurs by blast
  have nd: "\<not> is_digit CHR ''-''" "\<not> is_digit CHR ''@''" by (simp_all add: is_digit_def)
  show "extract_ref_from_text text \<noteq> Some (filter is_digit text)"
  proof (cases "re_search_uuid None text")
    case None
    from re_search_email_sound[OF m] have "CHR ''@'' \<in> set m"
      by (simp add: email_shaped_has_at)
    with nd(2) have "m \<noteq> filter is_digit text" by auto
    with None m show ?thesis by (simp add: extract_ref_cases)
  next
    case (Some u)
    from re_search_uuid_sound[OF Some] have "CHR ''-'' \<in> set u"
      using uuid_shaped_has_dash by blast
    with nd(1) have "u \<noteq> filter is_digit text" by auto
    with Some show ?thesis by (simp add: extract_ref_cases)
  qed
qed

theorem extract_ref_priority_witness:
  "extract_ref_from_text ''fale com ana@x.io ou 11 98765-4321'' = Some ''ana@x.io''"
proof -
  let ?t = "''fale com ana@x.io ou 11 98765-4321''"
  have "length ?t < 36" by simp
  from short_text_no_uuid[OF this] have nu: "\<not> uuid_occurs ?t"
    using uuid_occurs_sublist by blast
  have sh: "email_shaped ''ana@x.io''"
    unfolding email_shaped_def
    by (intro exI[of _ "''ana''"] exI[of _ "''x''"] exI[of _ "''io''"])
       (simp add: is_local_def is_dom_def is_alpha_def)
  have "''fale com ana@x.io ou 11 98765-4321'' = ''fale com '' @ ''ana@x.io'' @ '' ou 11 98765-4321''"
    by simp
  then have "sublist ''ana@x.io'' ?t" unfolding sublist_def by blast
  with sh have eo: "email_occurs ?t" unfolding email_occurs_def by blast
  from extract_ref_priority[of ?t] nu eo
  obtain e where e: "extract_ref_from_text ?t = Some e" by blast
  have "extract_ref_from_text ?t = Some ''ana@x.io''" by code_simp
  with e show ?thesis by simp
qed

theorem extract_ref_glued_uuid_counterexample:
  "uuid_shaped ''123e4567-e89b-12d3-a456-426614174000'' \<and>
   sublist ''123e4567-e89b-12d3-a456-426614174000'' ''x123e4567-e89b-12d3-a456-426614174000'' \<and>
   extract_ref_from_text ''x123e4567-e89b-12d3-a456-426614174000''
     = Some ''123456789123456426614174000'' \<and>
   \<not> uuid_shaped ''123456789123456426614174000''"
proof (intro conjI)
  show "uuid_shaped ''123e4567-e89b-12d3-a456-426614174000''"
    by code_simp
  show "sublist ''123e4567-e89b-12d3-a456-426614174000'' ''x123e4567-e89b-12d3-a456-426614174000''"
    by (simp add: sublist_Cons_right)
  show "extract_ref_from_text ''x123e4567-e89b-12d3-a456-426614174000''
     = Some ''123456789123456426614174000''"
    by code_simp
  show "\<not> uuid_shaped ''123456789123456426614174000''"
  proof
    assume "uuid_shaped ''123456789123456426614174000''"
    from uuid_shaped_length[OF this] show False by simp
  qed
qed

section \<open>Dictionaries and updates\<close>

lemma map_of_dict_set: "map_of (dict_set key v d) key = Some v"
  by (induction d) auto

lemma map_of_dict_set_other: "key' \<noteq> key \<Longrightarrow> map_of (dict_set key v d) key' = map_of d key'"
  by (induction d) auto

lemma dict_get_set: "dict_get (dict_set key v d) key = v"
  by (simp add: dict_get_def map_of_dict_set)

lemma dict_get_set_other: "key' \<noteq> key \<Longrightarrow> dict_get (dict_set key v d) key' = dict_get d key'"
  by (simp add: dict_get_def map_of_dict_set_other)

lemma keys_dict_set: "fst ` set (dict_set key v d) = insert key (fst ` set d)"
  by (induction d) auto

lemma distinct_dict_set: "distinct (map fst d) \<Longrightarrow> distinct (map fst (dict_set key v d))"
proof (induction d)
  case Nil
  then show ?case by simp
next
  case (Cons p d)
  then show ?case using keys_dict_set[of key v d] by (auto simp: image_iff)
qed

lemma apply_no_update: "apply_update no_update s = s"
  by (simp add: apply_update_def no_update_def)

section \<open>The pending queue executor\<close>

text \<open>
  Claim C9. With an empty queue \<open>execute_pending\<close> returns the empty update, which
  leaves the state as it is. Otherwise it removes the head of the queue and keeps the
  rest in its order, makes the intent and the slots of the head the active ones, and,
  when the head has no true lead reference and a lead is resolved, stores the identifier
  of that lead in the reference slot and leaves every other slot as it was. Nothing else
  of the state changes.
\<close>

theorem execute_pending_contract:
  "(pending_actions (s_context s) = [] \<longrightarrow>
      execute_pending s = no_update \<and> apply_update (execute_pending s) s = s) \<and>
   (\<forall>a rest. pending_actions (s_context s) = a # rest \<longrightarrow>
      (let s' = apply_update (execute_pending s) s
       in s_context s' = (s_context s)\<lparr>pending_actions := rest\<rparr> \<and>
          intent s' = Some (a_intent a) \<and>
          messages s' = messages s \<and> lead_atual s' = lead_atual s \<and> errors s' = errors s \<and>
          (\<forall>l. lead_atual s = Some l \<and> lead_id l \<noteq> [] \<and>
                \<not> truthy (dict_get (a_slots a) lead_ref_ou_id) \<longrightarrow>
             slots s' = dict_set lead_ref_ou_id (PStr (lead_id l)) (a_slots a) \<and>
             dict_get (slots s') lead_ref_ou_id = PStr (lead_id l) \<and>
             (\<forall>n. n \<noteq> lead_ref_ou_id \<longrightarrow> dict_get (slots s') n = dict_get (a_slots a) n)) \<and>
          (truthy (dict_get (a_slots a) lead_ref_ou_id) \<or> \<not> has_lead (lead_atual s) \<longrightarrow>
             slots s' = a_slots a)))"
proof (intro conjI impI allI)
  assume "pending_actions (s_context s) = []"
  then show "execute_pending s = no_update"
    by (simp add: execute_pending_def ensure_context_def)
  then show "apply_update (execute_pending s) s = s"
    by (simp add: apply_no_update)
next
  fix a rest
  assume p: "pending_actions (s_context s) = a # rest"
  define sl where "sl =
    (if \<not> slot_truthy (a_slots a) lead_ref_ou_id \<and> has_lead (lead_atual s)
     then dict_set lead_ref_ou_id (PStr (lead_id (the (lead_atual s)))) (a_slots a)
     else a_slots a)"
  have ex: "execute_pending s =
      no_update\<lparr>u_context := Some ((s_context s)\<lparr>pending_actions := rest\<rparr>),
                u_intent := Some (a_intent a), u_slots := Some sl\<rparr>"
    using p by (simp add: execute_pending_def ensure_context_def Let_def sl_def)
  let ?s' = "apply_update (execute_pending s) s"
  have c: "s_context ?s' = (s_context s)\<lparr>pending_actions := rest\<rparr>"
    and i: "intent ?s' = Some (a_intent a)" and s: "slots ?s' = sl"
    and r: "messages ?s' = messages s" "lead_atual ?s' = lead_atual s" "errors ?s' = errors s"
    unfolding ex by (simp_all add: apply_update_def no_update_def)
  have inj: "\<forall>l. lead_atual s = Some l \<and> lead_id l \<noteq> [] \<and>
                \<not> truthy (dict_get (a_slots a) lead_ref_ou_id) \<longrightarrow>
             slots ?s' = dict_set lead_ref_ou_id (PStr (lead_id l)) (a_slots a) \<and>
             dict_get (slots ?s') lead_ref_ou_id = PStr (lead_id l) \<and>
             (\<forall>n. n \<noteq> lead_ref_ou_id \<longrightarrow> dict_get (slots ?s') n = dict_get (a_slots a) n)"
    unfolding s sl_def
    by (simp add: slot_truthy_def has_lead_def dict_get_set dict_get_set_other)
  have keep: "truthy (dict_get (a_slots a) lead_ref_ou_id) \<or> \<not> has_lead (lead_atual s) \<longrightarrow>
             slots ?s' = a_slots a"
    unfolding s sl_def by (auto simp: slot_truthy_def)
  show "let s' = apply_update (execute_pending s) s
       in s_context s' = (s_context s)\<lparr>pending_actions := rest\<rparr> \<and>
          intent s' = Some (a_intent a) \<and>
          messages s' = messages s \<and> lead_atual s' = lead_atual s \<and> errors s' = errors s \<and>
          (\<forall>l. lead_atual s = Some l \<and> lead_id l \<noteq> [] \<and>
                \<not> truthy (dict_get (a_slots a) lead_ref_ou_id) \<longrightarrow>
             slots s' = dict_set lead_ref_ou_id (PStr (lead_id l)) (a_slots a) \<and>
             dict_get (slots s') lead_ref_ou_id = PStr (lead_id l) \<and>
             (\<forall>n. n \<noteq> lead_ref_ou_id \<longrightarrow> dict_get (slots s') n = dict_get (a_slots a) n)) \<and>
          (truthy (dict_get (a_slots a) lead_ref_ou_id) \<or> \<not> has_lead (lead_atual s) \<longrightarrow>
             slots s' = a_slots a)"
    unfolding Let_def using c i r inj keep by blast
qed

theorem execute_pending_contract_witness:
  "pending_actions (s_context (apply_update (execute_pending queued_state) queued_state))
     = [task_action] \<and>
   intent (apply_update (execute_pending queued_state) queued_state) = Some ''nota_adicionar'' \<and>
   slots (apply_update (execute_pending queued_state) queued_state)
     = [(''texto'', PStr ''follow-up''), (''lead_ref_ou_id'', PStr ''L-1'')] \<and>
   apply_update (execute_pending blank_state) blank_state = blank_state"
proof -
  have p: "pending_actions (s_context queued_state) = note_action # [task_action]"
    by (simp add: queued_state_def blank_state_def empty_ctx_def)
  have l: "lead_atual queued_state = Some demo_lead \<and> lead_id demo_lead \<noteq> [] \<and>
           \<not> truthy (dict_get (a_slots note_action) lead_ref_ou_id)"
    by (simp add: queued_state_def blank_state_def demo_lead_def note_action_def
        dict_get_def lead_ref_ou_id_def)
  have e: "pending_actions (s_context blank_state) = []"
    by (simp add: blank_state_def empty_ctx_def)
  from execute_pending_contract[of queued_state] p l
  have "pending_actions (s_context (apply_update (execute_pending queued_state) queued_state))
          = [task_action]"
    and "intent (apply_update (execute_pending queued_state) queued_state)
          = Some (a_intent note_action)"
    and "slots (apply_update (execute_pending queued_state) queued_state)
          = dict_set lead_ref_ou_id (PStr (lead_id demo_lead)) (a_slots note_action)"
    by (simp_all add: Let_def)
  moreover from execute_pending_contract[of blank_state] e
  have "apply_update (execute_pending blank_state) blank_state = blank_state" by blast
  ultimately show ?thesis
    by (simp add: note_action_def demo_lead_def lead_ref_ou_id_def)
qed

section \<open>Prerequisite promotion\<close>

lemma find_pop_first:
  "find P xs = Some a \<Longrightarrow>
   \<exists>ys zs. xs = ys @ a # zs \<and> (\<forall>y\<in>set ys. \<not> P y) \<and> P a \<and> pop_first P xs = ys @ zs"
proof (induction xs)
  case Nil
  then show ?case by simp
next
  case (Cons x xs)
  show ?case
  proof (cases "P x")
    case True
    with Cons.prems have "x = a" by simp
    with True show ?thesis by (intro exI[of _ "[]"] exI[of _ xs]) simp
  next
    case False
    with Cons.prems have "find P xs = Some a" by simp
    from Cons.IH[OF this] obtain ys zs where
      h: "xs = ys @ a # zs" "\<forall>y\<in>set ys. \<not> P y" "P a" "pop_first P xs = ys @ zs" by blast
    with False show ?thesis by (intro exI[of _ "x # ys"] exI[of _ zs]) simp
  qed
qed

text \<open>
  Claim C1. When the primary intent needs a lead reference, the reference slot is not
  set, no lead is resolved, and the queue as merged in this pass holds a lead creation,
  \<open>prepare_plan\<close> takes the first lead creation out of the queue, keeps the other
  actions in their order, and returns the creation as the active intent with its slots as
  the active slots, wherever the planner had put it.
\<close>

theorem prerequisite_promotion:
  assumes "needs_lead s"
    and "\<exists>a\<in>set (planned_queue e s). a_intent a = ''lead_criar''"
  shows "\<exists>before act after.
           planned_queue e s = before @ act # after \<and>
           a_intent act = ''lead_criar'' \<and>
           (\<forall>x\<in>set before. a_intent x \<noteq> ''lead_criar'') \<and>
           prepare_plan e s =
             no_update\<lparr>u_context := Some ((s_context s)\<lparr>pending_actions := before @ after\<rparr>),
                       u_intent := Some ''lead_criar'',
                       u_slots := Some (a_slots act)\<rparr> \<and>
           intent (apply_update (prepare_plan e s) s) = Some ''lead_criar'' \<and>
           slots (apply_update (prepare_plan e s) s) = a_slots act \<and>
           pending_actions (s_context (apply_update (prepare_plan e s) s)) = before @ after"
proof -
  let ?q = "planned_queue e s"
  from assms(2) have ne: "?q \<noteq> []" by auto
  from assms(2) have "find is_lead_criar ?q \<noteq> None"
    by (auto simp: find_None_iff is_lead_criar_def)
  then obtain act where f: "find is_lead_criar ?q = Some act" by blast
  from find_pop_first[OF f] obtain before after where
    h: "?q = before @ act # after" "\<forall>y\<in>set before. \<not> is_lead_criar y" "is_lead_criar act"
       "pop_first is_lead_criar ?q = before @ after" by blast
  have pp: "prepare_plan e s =
      no_update\<lparr>u_context := Some ((s_context s)\<lparr>pending_actions := before @ after\<rparr>),
                u_intent := Some ''lead_criar'', u_slots := Some (a_slots act)\<rparr>"
    using assms(1) ne f h(4) by (simp add: prepare_plan_def Let_def ensure_context_def)
  have "intent (apply_update (prepare_plan e s) s) = Some ''lead_criar''"
    and "slots (apply_update (prepare_plan e s) s) = a_slots act"
    and "pending_actions (s_context (apply_update (prepare_plan e s) s)) = before @ after"
    unfolding pp by (simp_all add: apply_update_def no_update_def)
  with h(1,2,3) pp show ?thesis unfolding is_lead_criar_def by blast
qed

lemma promo_queue: "planned_queue promo_env promo_state = [task_action, create_action]"
  by (simp add: planned_queue_def promo_env_def promo_state_def silent_env_def blank_state_def
      empty_ctx_def ensure_context_def bind_outcome_def plan_one_def skip_planned_def
      has_lead_def slots_strings_to_dict_def slot_blob_def slot_fallback_def split_eq_def
      strip_def is_space_def startswith_def default_and_inject_def INTENTS_REQUIRING_LEAD_def
      slot_truthy_def dict_get_def lead_ref_ou_id_def merge_actions_def hashable_action_def
      key_in_def key_eq_def k_def task_action_def create_action_def Let_def)

theorem prerequisite_promotion_witness:
  "needs_lead promo_state \<and>
   planned_queue promo_env promo_state = [task_action, create_action] \<and>
   intent (apply_update (prepare_plan promo_env promo_state) promo_state) = Some ''lead_criar'' \<and>
   slots (apply_update (prepare_plan promo_env promo_state) promo_state)
     = [(''nome'', PStr ''Maria'')] \<and>
   pending_actions (s_context (apply_update (prepare_plan promo_env promo_state) promo_state))
     = [task_action]"
proof -
  have n: "needs_lead promo_state"
    by (simp add: needs_lead_def promo_state_def blank_state_def intent_in_def
        INTENTS_REQUIRING_LEAD_def slot_truthy_def dict_get_def lead_ref_ou_id_def has_lead_def)
  have x: "\<exists>a\<in>set (planned_queue promo_env promo_state). a_intent a = ''lead_criar''"
    by (simp add: promo_queue create_action_def)
  from prerequisite_promotion[OF n x] obtain before act after where
    h: "[task_action, create_action] = before @ act # after"
       "a_intent act = ''lead_criar''" "\<forall>x\<in>set before. a_intent x \<noteq> ''lead_criar''"
       "intent (apply_update (prepare_plan promo_env promo_state) promo_state) = Some ''lead_criar''"
       "slots (apply_update (prepare_plan promo_env promo_state) promo_state) = a_slots act"
       "pending_actions (s_context (apply_update (prepare_plan promo_env promo_state) promo_state))
          = before @ after"
    unfolding promo_queue by blast
  have t: "a_intent task_action \<noteq> ''lead_criar''" by (simp add: task_action_def)
  from h(1) have "before = [] \<and> act = task_action \<or>
      before = [task_action] \<and> act = create_action \<and> after = []"
    by (cases before; cases "tl before") auto
  with h(2) t have "before = [task_action] \<and> act = create_action \<and> after = []" by auto
  with h(4,5,6) n show ?thesis by (simp add: promo_queue create_action_def)
qed

section \<open>Plan normalization never raises\<close>

lemma catch_returns: "\<exists>r. h = Returned r \<Longrightarrow> \<exists>r. catch x h = Returned r"
  by (cases x) (auto simp: catch_def)

lemma clean_action_returns: "\<exists>r. clean_action e it = Returned r"
proof (cases it)
  case (PDict d)
  have "\<exists>sl. (case map_of d ''slots'' of
               None \<Rightarrow> Returned []
             | Some (PList xs) \<Rightarrow> Returned xs
             | Some (PDict sd) \<Rightarrow>
                 catch (bind_outcome (json_dumps e (PDict sd)) (\<lambda>t. Returned [PStr t]))
                       (Returned [])
             | Some _ \<Rightarrow> Returned []) = Returned sl"
    by (auto simp: catch_returns split: option.splits pyval.splits)
  then obtain sl where "(case map_of d ''slots'' of
               None \<Rightarrow> Returned []
             | Some (PList xs) \<Rightarrow> Returned xs
             | Some (PDict sd) \<Rightarrow>
                 catch (bind_outcome (json_dumps e (PDict sd)) (\<lambda>t. Returned [PStr t]))
                       (Returned [])
             | Some _ \<Rightarrow> Returned []) = Returned sl" by blast
  with PDict show ?thesis by (simp add: clean_action_def bind_outcome_def)
qed (simp_all add: clean_action_def)

lemma clean_actions_returns: "\<exists>r. clean_actions e its = Returned r"
proof (induction its)
  case Nil
  then show ?case by simp
next
  case (Cons it its)
  from clean_action_returns[of e it] obtain a where "clean_action e it = Returned a" by blast
  moreover from Cons obtain as where "clean_actions e its = Returned as" by blast
  ultimately show ?case by (simp add: bind_outcome_def)
qed

lemma load_plan_object_returns: "\<exists>r. load_plan_object e raw = Returned r"
  unfolding load_plan_object_def
  by (intro catch_returns) (auto simp: Let_def catch_returns split: option.splits)

lemma parse_plan_returns: "\<exists>acts. parse_plan_actions_from_text e text = Returned acts"
proof -
  from load_plan_object_returns[of e "strip text"] obtain obj where
    o: "load_plan_object e (strip text) = Returned obj" by blast
  show ?thesis
    unfolding parse_plan_actions_from_text_def o bind_outcome_def
    using clean_actions_returns by (auto split: pyval.splits)
qed

lemma slot_blob_returns: "\<exists>r. slot_blob e b out = Returned r"
  unfolding slot_blob_def
  by (cases b) (auto simp: Let_def intro!: catch_returns)

lemma slots_loop_returns: "\<exists>r. slots_loop e bs out = Returned r"
proof (induction bs arbitrary: out)
  case Nil
  then show ?case by simp
next
  case (Cons b bs)
  from slot_blob_returns[of e b out] obtain o' where "slot_blob e b out = Returned o'" by blast
  with Cons[of o'] show ?case by (simp add: bind_outcome_def)
qed

lemma slots_strings_to_dict_returns: "\<exists>d. slots_strings_to_dict e bs = Returned d"
  unfolding slots_strings_to_dict_def by (rule slots_loop_returns)

lemma slot_blob_unparsable:
  assumes "CHR ''='' \<notin> set (strip b)"
    and "\<not> (startswith (strip b) ''{'' \<and> endswith (strip b) ''}'' \<and>
            (\<exists>d. json_loads e (replace_quotes (re_sub_keys e (strip b))) = Returned (PDict d)))"
  shows "slot_blob e (PStr b) out = Returned out"
proof -
  have f: "slot_fallback (strip b) out = out" using assms(1) by (simp add: slot_fallback_def)
  show ?thesis
  proof (cases "startswith (strip b) ''{'' \<and> endswith (strip b) ''}''")
    case False
    then show ?thesis using f by (auto simp: slot_blob_def Let_def)
  next
    case True
    with assms(2) have n: "\<And>d. json_loads e (replace_quotes (re_sub_keys e (strip b)))
        \<noteq> Returned (PDict d)" by blast
    show ?thesis
    proof (cases "json_loads e (replace_quotes (re_sub_keys e (strip b)))")
      case Raised
      with True f show ?thesis by (simp add: slot_blob_def Let_def catch_def bind_outcome_def)
    next
      case (Returned v)
      with n have "\<And>d. v \<noteq> PDict d" by auto
      with Returned True f show ?thesis
        by (cases v) (auto simp: slot_blob_def Let_def catch_def bind_outcome_def)
    qed
  qed
qed

lemma slots_loop_unparsable:
  assumes "\<forall>b\<in>set bs. case b of
             PStr t \<Rightarrow>
               CHR ''='' \<notin> set (strip t) \<and>
               \<not> (startswith (strip t) ''{'' \<and> endswith (strip t) ''}'' \<and>
                  (\<exists>d. json_loads e (replace_quotes (re_sub_keys e (strip t))) = Returned (PDict d)))
           | _ \<Rightarrow> True"
  shows "slots_loop e bs out = Returned out"
  using assms
proof (induction bs)
  case Nil
  then show ?case by simp
next
  case (Cons b bs)
  have "slot_blob e b out = Returned out"
  proof (cases b)
    case (PStr t)
    with Cons.prems show ?thesis by (simp add: slot_blob_unparsable)
  qed (simp_all add: slot_blob_def)
  with Cons show ?case by (simp add: bind_outcome_def)
qed

lemma load_plan_object_fails:
  assumes "json_loads e raw = Raised"
    and "\<forall>m. re_search_actions e raw = Some m \<longrightarrow> json_loads e (normalize_json_like e m) = Raised"
    and "re_search_actions e raw = None \<longrightarrow> json_loads e (normalize_json_like e raw) = Raised"
  shows "load_plan_object e raw = Returned PNone"
  using assms by (cases "re_search_actions e raw") (simp_all add: load_plan_object_def catch_def)

lemma clean_actions_truthy:
  "clean_actions e its = Returned acts \<Longrightarrow> \<forall>a\<in>set acts. truthy (ra_intent a)"
proof (induction its arbitrary: acts)
  case Nil
  then show ?case by simp
next
  case (Cons it its)
  from clean_action_returns[of e it] obtain a where a: "clean_action e it = Returned a" by blast
  from clean_actions_returns[of e its] obtain as where as: "clean_actions e its = Returned as"
    by blast
  from Cons.prems a as have acts: "acts = (case a of None \<Rightarrow> as | Some x \<Rightarrow> x # as)"
    by (simp add: bind_outcome_def)
  have "\<forall>x. a = Some x \<longrightarrow> truthy (ra_intent x)"
    using a by (cases it)
      (auto simp: clean_action_def bind_outcome_def split: outcome.splits if_splits)
  with Cons.IH[OF as] acts show ?case by (cases a) auto
qed

text \<open>
  Claim C6. For every text and every behaviour of the library parsers, parsing the text
  of the planner returns a list of actions, each with a true intent and a list of slot
  blobs, and does not raise; when the strict parse fails and the parse of the repaired
  text fails too, the list is empty. Converting slot blobs to a mapping does not raise
  either; a blob that holds no \<^verbatim>\<open>=\<close> and does not parse as an object leaves
  the mapping as it is, so blobs of this kind alone give the empty mapping, and the action
  they belong to is still planned.
\<close>

theorem plan_normalization_total:
  "(\<exists>acts. parse_plan_actions_from_text e text = Returned acts \<and>
           (\<forall>a\<in>set acts. truthy (ra_intent a))) \<and>
   (json_loads e (strip text) = Raised \<and>
    (\<forall>m. re_search_actions e (strip text) = Some m \<longrightarrow>
         json_loads e (normalize_json_like e m) = Raised) \<and>
    (re_search_actions e (strip text) = None \<longrightarrow>
         json_loads e (normalize_json_like e (strip text)) = Raised)
    \<longrightarrow> parse_plan_actions_from_text e text = Returned []) \<and>
   (\<exists>d. slots_strings_to_dict e blobs = Returned d) \<and>
   ((\<forall>b\<in>set blobs. case b of
        PStr t \<Rightarrow>
          CHR ''='' \<notin> set (strip t) \<and>
          \<not> (startswith (strip t) ''{'' \<and> endswith (strip t) ''}'' \<and>
             (\<exists>d. json_loads e (replace_quotes (re_sub_keys e (strip t))) = Returned (PDict d)))
      | _ \<Rightarrow> True)
    \<longrightarrow> slots_strings_to_dict e blobs = Returned [] \<and>
        (\<not> skip_planned primary lead i \<longrightarrow>
           plan_one e primary lead \<lparr>pa_intent = i, pa_slots = blobs\<rparr> =
             Returned (Some \<lparr>a_intent = i, a_slots = default_and_inject i lead []\<rparr>)))"
proof (intro conjI impI)
  from parse_plan_returns[of e "text"] obtain acts where
    p: "parse_plan_actions_from_text e text = Returned acts" by blast
  have "\<forall>a\<in>set acts. truthy (ra_intent a)"
  proof (cases "load_plan_object e (strip text)")
    case Raised
    with p show ?thesis by (simp add: parse_plan_actions_from_text_def bind_outcome_def)
  next
    case (Returned obj)
    with p show ?thesis
      by (auto simp: parse_plan_actions_from_text_def bind_outcome_def
          dest: clean_actions_truthy split: pyval.splits)
  qed
  with p show "\<exists>acts. parse_plan_actions_from_text e text = Returned acts \<and>
           (\<forall>a\<in>set acts. truthy (ra_intent a))" by blast
next
  assume "json_loads e (strip text) = Raised \<and>
    (\<forall>m. re_search_actions e (strip text) = Some m \<longrightarrow>
         json_loads e (normalize_json_like e m) = Raised) \<and>
    (re_search_actions e (strip text) = None \<longrightarrow>
         json_loads e (normalize_json_like e (strip text)) = Raised)"
  then have "load_plan_object e (strip text) = Returned PNone"
    by (intro load_plan_object_fails) auto
  then show "parse_plan_actions_from_text e text = Returned []"
    by (simp add: parse_plan_actions_from_text_def bind_outcome_def)
next
  show "\<exists>d. slots_strings_to_dict e blobs = Returned d"
    by (rule slots_strings_to_dict_returns)
next
  assume h: "\<forall>b\<in>set blobs. case b of
        PStr t \<Rightarrow>
          CHR ''='' \<notin> set (strip t) \<and>
          \<not> (startswith (strip t) ''{'' \<and> endswith (strip t) ''}'' \<and>
             (\<exists>d. json_loads e (replace_quotes (re_sub_keys e (strip t))) = Returned (PDict d)))
      | _ \<Rightarrow> True"
  then show d: "slots_strings_to_dict e blobs = Returned []"
    unfolding slots_strings_to_dict_def by (rule slots_loop_unparsable)
  assume "\<not> skip_planned primary lead i"
  with d show "plan_one e primary lead \<lparr>pa_intent = i, pa_slots = blobs\<rparr> =
             Returned (Some \<lparr>a_intent = i, a_slots = default_and_inject i lead []\<rparr>)"
    by (simp add: plan_one_def bind_outcome_def)
qed

theorem plan_normalization_total_witness:
  "parse_plan_actions_from_text silent_env ''vou criar o lead e a nota'' = Returned [] \<and>
   slots_strings_to_dict silent_env [PStr ''{titulo: follow-up'', PInt 3] = Returned [] \<and>
   plan_one silent_env None None
       \<lparr>pa_intent = ''proposta_rascunhar'', pa_slots = [PStr ''{titulo: follow-up'', PInt 3]\<rparr>
     = Returned (Some \<lparr>a_intent = ''proposta_rascunhar'', a_slots = [(''moeda'', PStr ''BRL'')]\<rparr>)"
proof -
  have a: "json_loads silent_env (strip ''vou criar o lead e a nota'') = Raised \<and>
    (\<forall>m. re_search_actions silent_env (strip ''vou criar o lead e a nota'') = Some m \<longrightarrow>
         json_loads silent_env (normalize_json_like silent_env m) = Raised) \<and>
    (re_search_actions silent_env (strip ''vou criar o lead e a nota'') = None \<longrightarrow>
         json_loads silent_env (normalize_json_like silent_env (strip ''vou criar o lead e a nota''))
           = Raised)"
    by (simp add: silent_env_def)
  have s: "strip ''{titulo: follow-up'' = ''{titulo: follow-up''"
    by (simp add: strip_def is_space_def)
  have b: "\<forall>b\<in>set [PStr ''{titulo: follow-up'', PInt 3]. case b of
        PStr t \<Rightarrow>
          CHR ''='' \<notin> set (strip t) \<and>
          \<not> (startswith (strip t) ''{'' \<and> endswith (strip t) ''}'' \<and>
             (\<exists>d. json_loads silent_env (replace_quotes (re_sub_keys silent_env (strip t)))
                    = Returned (PDict d)))
      | _ \<Rightarrow> True"
    by (simp add: s silent_env_def)
  have c: "\<not> skip_planned None None ''proposta_rascunhar''"
    by (simp add: skip_planned_def has_lead_def)
  have d: "default_and_inject ''proposta_rascunhar'' None [] = [(''moeda'', PStr ''BRL'')]"
    by (simp add: default_and_inject_def INTENTS_REQUIRING_LEAD_def has_lead_def Let_def)
  from plan_normalization_total[of silent_env "''vou criar o lead e a nota''"
      "[PStr ''{titulo: follow-up'', PInt 3]" None None "''proposta_rascunhar''"] a b c d
  show ?thesis by simp
qed

end
